theory Spec2Isabelle
  imports Complex_Main
begin

section \<open>Fermi statistics, the quasi-Fermi solver and the Debye model of QWWAD\<close>

text \<open>
  The development embeds two translation units of the repository, both found in
  \<^verbatim>\<open>src/src/qclsim-fermi.cpp\<close>: the Fermi functions of namespace \<^verbatim>\<open>Leeds\<close>
  (\<^verbatim>\<open>f_FD\<close>, \<^verbatim>\<open>f_FD_ionised\<close>, \<^verbatim>\<open>find_pop\<close>, \<^verbatim>\<open>find_fermi\<close>,
  \<^verbatim>\<open>find_fermi_global\<close>) and the class \<^verbatim>\<open>QWWAD::DebyeModel\<close>.

  Modelling decisions, valid for every definition below:
  \<^item> A C++ \<^verbatim>\<open>double\<close> is a HOL \<open>real\<close>: the arithmetic is exact, there is no rounding,
    overflow, infinity or NaN. Division by zero is HOL's (\<open>x / 0 = 0\<close>); statements that
    would depend on it carry the hypothesis that excludes it. A statement about these
    definitions is a statement about the program over exact real arithmetic. Where the
    program in binary64 arithmetic differs and a property turns on it, the difference is
    modelled on its own: \<open>find_pop_binary64\<close> is \<open>find_pop\<close> with the range of the double
    exponential.
  \<^item> A \<^verbatim>\<open>throw std::runtime_error\<close> is a value \<open>Inl err\<close> of the result type
    \<open>error + real\<close>; a function whose body has no \<^verbatim>\<open>throw\<close> is a plain function.
  \<^item> A loop that may run forever is option-valued: \<open>None\<close> is "does not return".
  \<^item> The header \<^verbatim>\<open>qclsim-constants.h\<close> is not among the sources, so the physical
    constants are a parameter \<open>c\<close> of every function that uses them; \<^verbatim>\<open>pi\<close> is HOL's \<open>pi\<close>.
  \<^item> The GSL routines are outside the repository: \<^verbatim>\<open>gsl_log1p\<close>, \<^verbatim>\<open>gsl_expm1\<close> and
    \<^verbatim>\<open>GSL_SIGN\<close> are defined by their documented meaning; \<^verbatim>\<open>gsl_sf_debye_3\<close> and
    \<^verbatim>\<open>gsl_deriv_forward\<close> are parameters.
\<close>

subsection \<open>Constants and library functions\<close>

record constants =
  kB :: real
  hBar :: real
  e :: real
  Na :: real

definition valid_constants :: "constants \<Rightarrow> bool" where
  "valid_constants c = (0 < kB c \<and> 0 < hBar c \<and> 0 < e c \<and> 0 < Na c)"

text \<open>
  SI values of the Boltzmann constant, the reduced Planck constant, the elementary charge
  and the Avogadro number, as the GSL headers give them; they are used wherever a
  statement is evaluated at a concrete input. No general theorem below depends on them.
\<close>

definition mksa :: constants where
  "mksa = \<lparr>kB = 13806504 / 10 ^ 30, hBar = 105457162825 / 10 ^ 45,
           e = 1602176487 / 10 ^ 28, Na = 602214199 * 10 ^ 15\<rparr>"

definition gsl_log1p :: "real \<Rightarrow> real" where
  "gsl_log1p x = ln (1 + x)"

definition gsl_expm1 :: "real \<Rightarrow> real" where
  "gsl_expm1 x = exp x - 1"

text \<open>\<^verbatim>\<open>#define GSL_SIGN(x) ((x) >= 0 ? 1 : -1)\<close>\<close>

definition GSL_SIGN :: "real \<Rightarrow> int" where
  "GSL_SIGN x = (if x \<ge> 0 then 1 else - 1)"

subsection \<open>Errors\<close>

text \<open>
  The two \<^verbatim>\<open>std::runtime_error\<close>s of \<^verbatim>\<open>DebyeModel\<close> ("Cannot find internal energy for
  T = ..." and "Cannot find specific heat capacity for T = ...") are \<open>InvalidTemperature\<close>;
  the one of \<^verbatim>\<open>find_fermi_global\<close> ("No quasi-Fermi energy in range.") is
  \<open>NoSolutionInRange\<close>. \<open>OutOfBounds\<close> is not an exception of the program: it marks a
  read of a \<^verbatim>\<open>std::valarray\<close> at an index that is not below its size, which C++ leaves
  undefined.
\<close>

datatype error = InvalidTemperature | NoSolutionInRange | OutOfBounds

subsection \<open>Fermi statistics\<close>

definition f_FD :: "constants \<Rightarrow> real \<Rightarrow> real \<Rightarrow> real \<Rightarrow> real" where
  "f_FD c E_F E Te = 1 / (exp ((E - E_F) / (kB c * Te)) + 1)"

definition f_FD_ionised :: "constants \<Rightarrow> real \<Rightarrow> real \<Rightarrow> real \<Rightarrow> real" where
  "f_FD_ionised c E_F Ed Te = 1 / (0.5 * exp ((Ed - E_F) / (kB c * Te)) + 1)"

definition find_pop :: "constants \<Rightarrow> real \<Rightarrow> real \<Rightarrow> real \<Rightarrow> real \<Rightarrow> real" where
  "find_pop c Esb E_F md Te =
     (let rho = md / (pi * hBar c * hBar c);
          y = - (Esb - E_F) / (kB c * Te);
          int_f_FD = kB c * Te * gsl_log1p (exp y)
      in rho * int_f_FD)"

text \<open>
  The exponential in binary64, as to its range: a result whose exact value is at most
  \<open>2\<^sup>-\<^sup>1\<^sup>0\<^sup>7\<^sup>5\<close>, half the smallest positive double, is zero (underflow); a result whose exact
  value reaches \<open>2\<^sup>1\<^sup>0\<^sup>2\<^sup>4 - 2\<^sup>9\<^sup>7\<^sup>0\<close>, half a step past the largest double, is no finite number
  (\<open>None\<close>); between the two the exact value stands for the rounded one.
\<close>

definition exp_binary64 :: "real \<Rightarrow> real option" where
  "exp_binary64 y =
     (if exp y \<le> 2 powr (- 1075) then Some 0
      else if 2 powr 1024 - 2 powr 970 \<le> exp y then None
      else Some (exp y))"

text \<open>
  \<^verbatim>\<open>find_pop\<close> with that exponential: the same three assignments, and \<open>None\<close> where the
  exponential overflows (\<^verbatim>\<open>gsl_log1p\<close> of infinity is no finite number).
\<close>

definition find_pop_binary64 :: "constants \<Rightarrow> real \<Rightarrow> real \<Rightarrow> real \<Rightarrow> real \<Rightarrow> real option" where
  "find_pop_binary64 c Esb E_F md Te =
     (let rho = md / (pi * hBar c * hBar c);
          y = - (Esb - E_F) / (kB c * Te)
      in case exp_binary64 y of
           None \<Rightarrow> None
         | Some x \<Rightarrow>
             (let int_f_FD = kB c * Te * gsl_log1p x
              in Some (rho * int_f_FD)))"

definition find_fermi :: "constants \<Rightarrow> real \<Rightarrow> real \<Rightarrow> real \<Rightarrow> real \<Rightarrow> real" where
  "find_fermi c Esb m N Te =
     Esb + kB c * Te * ln (gsl_expm1 ((N * pi * hBar c * hBar c) / (m * kB c * Te)))"

subsection \<open>The solver for many subbands\<close>

text \<open>
  \<^verbatim>\<open>E[i]\<close> on a \<^verbatim>\<open>std::valarray<double>\<close>: the element when \<open>i\<close> is below the size.
\<close>

definition valarray_at :: "real list \<Rightarrow> nat \<Rightarrow> error + real" where
  "valarray_at E i = (if i < length E then Inr (E ! i) else Inl OutOfBounds)"

text \<open>\<^verbatim>\<open>nst-1\<close> on a 64-bit \<^verbatim>\<open>size_t\<close>: the subtraction wraps at zero.\<close>

definition size_t_pred :: "nat \<Rightarrow> nat" where
  "size_t_pred n = (n + (2 ^ 64 - 1)) mod 2 ^ 64"

text \<open>
  The inner loop \<^verbatim>\<open>for(unsigned int ist = 0; ist < nst; ist++) total_population +=
  find_pop(E[ist], E_mid, m, Te);\<close> from the state \<open>ist\<close>, \<open>tot\<close>. The counter is a 32-bit
  \<^verbatim>\<open>unsigned int\<close>, so \<^verbatim>\<open>ist++\<close> wraps at \<open>2 ^ 32\<close>; it is compared with the 64-bit size.
  Every read \<^verbatim>\<open>E[ist]\<close> is below the size.
\<close>

partial_function (option) population_loop ::
  "constants \<Rightarrow> real \<Rightarrow> real \<Rightarrow> real list \<Rightarrow> real \<Rightarrow> nat \<Rightarrow> real \<Rightarrow> real option" where
  "population_loop c m Te E E_F ist tot =
     (if ist < length E
      then population_loop c m Te E E_F ((ist + 1) mod 2 ^ 32) (tot + find_pop c (E ! ist) E_F m Te)
      else Some tot)"

text \<open>
  The sum that the inner loop leaves in \<^verbatim>\<open>total_population\<close> when it ends: the populations
  of all subbands at one trial Fermi energy, added to \<open>0.0\<close> in the order of the array
  (lemma \<open>population_loop_total\<close>).
\<close>

definition total_population :: "constants \<Rightarrow> real \<Rightarrow> real \<Rightarrow> real list \<Rightarrow> real \<Rightarrow> real" where
  "total_population c m Te E E_F = foldl (\<lambda>tot Esb. tot + find_pop c Esb E_F m Te) 0 E"

text \<open>The three local variables that the \<^verbatim>\<open>while\<close> loop updates.\<close>

record bracket =
  E_min :: real
  E_max :: real
  E_mid :: real

text \<open>The loop condition \<^verbatim>\<open>fabs(E_max-E_min) > 1e-8*e\<close>.\<close>

definition bisect_cond :: "constants \<Rightarrow> bracket \<Rightarrow> bool" where
  "bisect_cond c s = (\<bar>E_max s - E_min s\<bar> > 1 / 10 ^ 8 * e c)"

text \<open>
  The rest of the loop body, after the inner loop has left its sum in
  \<^verbatim>\<open>total_population\<close>: the sign at the midpoint, the endpoint that the midpoint replaces,
  and the new midpoint.
\<close>

definition bisect_update :: "int \<Rightarrow> real \<Rightarrow> real \<Rightarrow> bracket \<Rightarrow> bracket" where
  "bisect_update sign_min N tot s =
     (let sign_mid = GSL_SIGN (tot - N);
          s' = (if sign_mid = sign_min then s\<lparr>E_min := E_mid s\<rparr> else s\<lparr>E_max := E_mid s\<rparr>)
      in s'\<lparr>E_mid := (E_max s' + E_min s') / 2\<rparr>)"

text \<open>
  The \<^verbatim>\<open>while\<close> loop. A run of its body first runs the inner loop from \<open>ist = 0\<close> and
  \<open>total_population = 0.0\<close>; if that never ends, neither does the body.
\<close>

partial_function (option) bisect_loop ::
  "constants \<Rightarrow> real \<Rightarrow> real \<Rightarrow> real \<Rightarrow> real list \<Rightarrow> int \<Rightarrow> bracket \<Rightarrow> bracket option" where
  "bisect_loop c m N Te E sign_min s =
     (if bisect_cond c s
      then Option.bind (population_loop c m Te E (E_mid s) 0 0)
             (\<lambda>tot. bisect_loop c m N Te E sign_min (bisect_update sign_min N tot s))
      else Some s)"

text \<open>
  One run of the loop body when its inner loop ends, as a function of the bracket: the
  update with the sum over all subbands.
\<close>

definition bisect_step ::
  "constants \<Rightarrow> real \<Rightarrow> real \<Rightarrow> real \<Rightarrow> real list \<Rightarrow> int \<Rightarrow> bracket \<Rightarrow> bracket" where
  "bisect_step c m N Te E sign_min s =
     bisect_update sign_min N (total_population c m Te E (E_mid s)) s"

text \<open>The bracket before the loop: \<^verbatim>\<open>E[0]-100.0*kB*Te\<close>, \<^verbatim>\<open>E[nst-1]+100.0*kB*Te\<close> and their mean.\<close>

definition initial_bracket :: "constants \<Rightarrow> real \<Rightarrow> real \<Rightarrow> real \<Rightarrow> bracket" where
  "initial_bracket c Te E_first E_last =
     (let lo = E_first - 100 * kB c * Te;
          hi = E_last + 100 * kB c * Te
      in \<lparr>E_min = lo, E_max = hi, E_mid = (lo + hi) / 2\<rparr>)"

definition find_fermi_global ::
  "constants \<Rightarrow> real \<Rightarrow> real \<Rightarrow> real \<Rightarrow> real list \<Rightarrow> (error + real) option" where
  "find_fermi_global c m N Te E =
     (let nst = length E in
      case valarray_at E 0 of
        Inl err \<Rightarrow> Some (Inl err)
      | Inr E_first \<Rightarrow>
         (case valarray_at E (size_t_pred nst) of
            Inl err \<Rightarrow> Some (Inl err)
          | Inr E_last \<Rightarrow>
             (let s0 = initial_bracket c Te E_first E_last;
                  sign_min = GSL_SIGN (find_pop c E_first (E_min s0) m Te - N);
                  sign_max = GSL_SIGN (find_pop c E_first (E_max s0) m Te - N);
                  solvable = \<not> (sign_min = sign_max)
              in if solvable
                 then map_option (\<lambda>s. Inr (E_mid s)) (bisect_loop c m N Te E sign_min s0)
                 else Some (Inl NoSolutionInRange))))"

text \<open>
  The bracket that \<open>find_fermi_global\<close> starts from, for an array that is not empty.
\<close>

definition search_bracket :: "constants \<Rightarrow> real \<Rightarrow> real list \<Rightarrow> bracket" where
  "search_bracket c Te E = initial_bracket c Te (E ! 0) (E ! size_t_pred (length E))"

text \<open>
  The sign that \<open>find_fermi_global\<close> computes at an endpoint of the bracket: that of the
  population of the subband \<^verbatim>\<open>E[0]\<close> alone, minus \<open>N\<close>.
\<close>

definition endpoint_sign :: "constants \<Rightarrow> real \<Rightarrow> real \<Rightarrow> real \<Rightarrow> real list \<Rightarrow> real \<Rightarrow> int" where
  "endpoint_sign c m N Te E E_F = GSL_SIGN (find_pop c (E ! 0) E_F m Te - N)"

text \<open>
  The residual of the specification, \<open>g(E_F) = \<Sum>\<^sub>i find_pop(E\<^sub>i, E_F, m, Te) - N\<close>, over all
  subbands; the loop body computes its sign at the midpoint.
\<close>

definition residual :: "constants \<Rightarrow> real \<Rightarrow> real \<Rightarrow> real \<Rightarrow> real list \<Rightarrow> real \<Rightarrow> real" where
  "residual c m N Te E E_F = total_population c m Te E E_F - N"

text \<open>
  The population that corresponds to the energy tolerance \<^verbatim>\<open>1e-8*e\<close> of the loop: the
  tolerance times the largest slope of the total population, which is the two-dimensional
  density of states \<open>m / (\<pi> \<hbar>\<^sup>2)\<close> for each subband.
\<close>

definition population_tolerance :: "constants \<Rightarrow> real \<Rightarrow> real list \<Rightarrow> real" where
  "population_tolerance c m E =
     real (length E) * (m / (pi * hBar c * hBar c)) * (1 / 10 ^ 8 * e c)"

subsection \<open>The Debye model\<close>

text \<open>
  The class has three private members, \<^verbatim>\<open>_T_D\<close>, \<^verbatim>\<open>_M\<close> (both \<^verbatim>\<open>double\<close>) and \<^verbatim>\<open>_natoms\<close>
  (a \<^verbatim>\<open>size_t\<close>, which only ever is converted to \<^verbatim>\<open>double\<close>).
\<close>

record DebyeModel =
  T_D :: real
  M :: real
  natoms :: nat

definition DebyeModel_ctor :: "real \<Rightarrow> real \<Rightarrow> nat \<Rightarrow> DebyeModel" where
  "DebyeModel_ctor T_D0 M0 natoms0 = \<lparr>T_D = T_D0, M = M0, natoms = natoms0\<rparr>"

text \<open>
  \<open>debye_3\<close> stands for \<^verbatim>\<open>gsl_sf_debye_3\<close>, \<open>deriv_forward f x h\<close> for
  \<^verbatim>\<open>gsl_deriv_forward(&f, x, h, &result, &abserr)\<close> and its \<^verbatim>\<open>result\<close>; an exception
  of the callback would pass through it.
\<close>

definition get_internal_energy ::
  "constants \<Rightarrow> (real \<Rightarrow> real) \<Rightarrow> DebyeModel \<Rightarrow> real \<Rightarrow> error + real" where
  "get_internal_energy c debye_3 dm T =
     (if T \<le> 0 then Inl InvalidTemperature
      else let D_3 = debye_3 (T_D dm / T)
           in Inr (3 * Na c * kB c * T * D_3 * real (natoms dm) / M dm))"

definition find_U ::
  "constants \<Rightarrow> (real \<Rightarrow> real) \<Rightarrow> DebyeModel \<Rightarrow> real \<Rightarrow> error + real" where
  "find_U c debye_3 dm T = get_internal_energy c debye_3 dm T"

definition get_cp ::
  "constants \<Rightarrow> (real \<Rightarrow> real) \<Rightarrow> ((real \<Rightarrow> error + real) \<Rightarrow> real \<Rightarrow> real \<Rightarrow> error + real)
     \<Rightarrow> DebyeModel \<Rightarrow> real \<Rightarrow> error + real" where
  "get_cp c debye_3 deriv_forward dm T =
     (if T \<le> 0 then Inl InvalidTemperature
      else deriv_forward (find_U c debye_3 dm) T 1)"

definition get_cp_low_T :: "constants \<Rightarrow> DebyeModel \<Rightarrow> real \<Rightarrow> real" where
  "get_cp_low_T c dm T =
     (let pi_sq = pi * pi
      in 12 * pi_sq * pi_sq * Na c * kB c * T * T * T / (T_D dm * T_D dm * T_D dm * 5)
           * real (natoms dm) / M dm)"

definition get_cp_high_T :: "constants \<Rightarrow> DebyeModel \<Rightarrow> real" where
  "get_cp_high_T c dm = 3 * Na c * kB c * real (natoms dm) / M dm"

definition get_cp_approx :: "constants \<Rightarrow> DebyeModel \<Rightarrow> real \<Rightarrow> real" where
  "get_cp_approx c dm T =
     (let pi_sq = pi * pi;
          T_match = T_D dm * root 3 (1.25 / (pi_sq * pi_sq))
      in if T > T_match then get_cp_high_T c dm else get_cp_low_T c dm T)"

text \<open>
  The crossover temperature as the documentation of \<^verbatim>\<open>get_cp_approx\<close> writes it,
  \<open>T\<^sub>D (5 / (4 \<pi>\<^sup>4))\<^sup>1\<^sup>/\<^sup>3\<close>; the function itself computes
  \<^verbatim>\<open>_T_D * std::cbrt(1.25/(pi_sq*pi_sq))\<close>, and lemma \<open>T_match_code\<close> relates the two.
\<close>

definition T_match :: "DebyeModel \<Rightarrow> real" where
  "T_match dm = T_D dm * root 3 (5 / (4 * pi ^ 4))"

text \<open>A model used for concrete evaluations: aluminium, one atom per formula unit.\<close>

definition aluminium :: DebyeModel where
  "aluminium = DebyeModel_ctor 428 (26982 / 10 ^ 6) 1"

subsection \<open>Calls and their outcomes\<close>

text \<open>
  The entry points that take a temperature, each with its other arguments, and the outcome
  of calling one at a temperature: the value or the exception. The bodies of \<^verbatim>\<open>f_FD\<close>,
  \<^verbatim>\<open>f_FD_ionised\<close>, \<^verbatim>\<open>find_pop\<close>, \<^verbatim>\<open>find_fermi\<close>, \<^verbatim>\<open>get_cp_low_T\<close> and
  \<^verbatim>\<open>get_cp_approx\<close> have no \<^verbatim>\<open>throw\<close> and call nothing that throws, so their
  calls return.
\<close>

datatype fermi_call =
  F_FD real real
  | F_FD_ionised real real
  | Find_pop real real real
  | Find_fermi real real real

definition fermi_outcome :: "constants \<Rightarrow> fermi_call \<Rightarrow> real \<Rightarrow> error + real" where
  "fermi_outcome c call Te =
     (case call of
        F_FD E_F E \<Rightarrow> Inr (f_FD c E_F E Te)
      | F_FD_ionised E_F Ed \<Rightarrow> Inr (f_FD_ionised c E_F Ed Te)
      | Find_pop Esb E_F md \<Rightarrow> Inr (find_pop c Esb E_F md Te)
      | Find_fermi Esb m N \<Rightarrow> Inr (find_fermi c Esb m N Te))"

datatype debye_call = Get_internal_energy | Get_cp | Get_cp_low_T | Get_cp_approx

definition debye_outcome ::
  "constants \<Rightarrow> (real \<Rightarrow> real) \<Rightarrow> ((real \<Rightarrow> error + real) \<Rightarrow> real \<Rightarrow> real \<Rightarrow> error + real)
     \<Rightarrow> DebyeModel \<Rightarrow> debye_call \<Rightarrow> real \<Rightarrow> error + real" where
  "debye_outcome c debye_3 deriv_forward dm call T =
     (case call of
        Get_internal_energy \<Rightarrow> get_internal_energy c debye_3 dm T
      | Get_cp \<Rightarrow> get_cp c debye_3 deriv_forward dm T
      | Get_cp_low_T \<Rightarrow> Inr (get_cp_low_T c dm T)
      | Get_cp_approx \<Rightarrow> Inr (get_cp_approx c dm T))"

subsection \<open>Concrete inputs\<close>

text \<open>
  Inputs for concrete evaluations, in SI units: the density-of-states mass of an electron
  in GaAs (0.067 electron masses), a ladder of two subbands 1e-21 J apart, and a ladder
  of three subbands (8e-21 J, 0 J, 1.6e-20 J) whose first entry is not its lowest.
\<close>

definition m_GaAs :: real where
  "m_GaAs = 61 / 10 ^ 33"

definition ladder2 :: "real list" where
  "ladder2 = [0, 1 / 10 ^ 21]"

definition ladder3 :: "real list" where
  "ladder3 = [8 / 10 ^ 21, 0, 16 / 10 ^ 21]"

text \<open>An array of \<open>2 ^ 32\<close> subbands, all at 0 J.\<close>

definition ladder_2_32 :: "real list" where
  "ladder_2_32 = replicate (2 ^ 32) 0"

text \<open>Two sheet densities, 1e15 and 1.4e16 carriers per square metre.\<close>

definition N_1e15 :: real where
  "N_1e15 = 10 ^ 15"

definition N_14e15 :: real where
  "N_14e15 = 14 * 10 ^ 15"

section \<open>Properties\<close>

lemma valid_constantsD:
  assumes "valid_constants c"
  shows "0 < kB c" and "0 < hBar c" and "0 < e c" and "0 < Na c"
  using assms by (simp_all add: valid_constants_def)

lemma valid_mksa: "valid_constants mksa"
  by (simp add: valid_constants_def mksa_def)

lemma pi_ge_three: "3 \<le> pi"
proof -
  have "sin (pi / 6) \<le> pi / 6"
    by (rule sin_x_le_x) simp
  then show ?thesis by (simp add: sin_30)
qed

subsection \<open>Fermi statistics\<close>

lemma find_pop_eq:
  "find_pop c Esb E_F md Te =
     md / (pi * hBar c * hBar c) * (kB c * Te * ln (1 + exp ((E_F - Esb) / (kB c * Te))))"
  by (simp add: find_pop_def gsl_log1p_def Let_def minus_divide_left)

lemma ln1p_exp_pos: "0 < ln (1 + exp (y::real))"
  by (simp add: ln_gt_zero)

lemma ln1p_exp_strict_mono: "(a::real) < b \<Longrightarrow> ln (1 + exp a) < ln (1 + exp b)"
  by (simp add: add_pos_pos)

text \<open>
  Claim C5 (round trip). For positive constants, a positive mass and a positive
  temperature, \<open>find_fermi\<close> applied to the population that \<open>find_pop\<close> gives for a Fermi
  energy \<open>E_F\<close> returns \<open>E_F\<close> itself; the two agree exactly, hence within the relative
  tolerance \<open>1e-6\<close>. This holds for every \<open>E_F\<close>, in particular for those within
  \<open>50 kB Te\<close> of the subband minimum.
\<close>

theorem find_fermi_find_pop:
  assumes "valid_constants c" and "0 < m" and "0 < Te"
  shows "find_fermi c Esb m (find_pop c Esb E_F m Te) Te = E_F
       \<and> \<bar>find_fermi c Esb m (find_pop c Esb E_F m Te) Te - E_F\<bar> \<le> 1 / 10 ^ 6 * \<bar>E_F\<bar>"
proof -
  from assms(1) have k: "0 < kB c" and h: "0 < hBar c"
    by (simp_all add: valid_constants_def)
  define y where "y = (E_F - Esb) / (kB c * Te)"
  have arg: "(find_pop c Esb E_F m Te * pi * hBar c * hBar c) / (m * kB c * Te) = ln (1 + exp y)"
    using k h assms(2,3) by (simp add: find_pop_eq y_def)
  have "find_fermi c Esb m (find_pop c Esb E_F m Te) Te
      = Esb + kB c * Te * ln (exp (ln (1 + exp y)) - 1)"
    by (simp add: find_fermi_def gsl_expm1_def arg)
  also have "exp (ln (1 + exp y)) = 1 + exp y"
    by (simp add: add_pos_pos)
  also have "Esb + kB c * Te * ln (1 + exp y - 1) = Esb + kB c * Te * y"
    by simp
  also have "\<dots> = E_F"
    using k assms(3) by (simp add: y_def)
  finally show ?thesis by simp
qed

theorem find_fermi_find_pop_witness:
  "valid_constants mksa \<and> (0::real) < 61 / 10 ^ 33 \<and> (0::real) < 300
   \<and> find_fermi mksa 0 (61 / 10 ^ 33) (find_pop mksa 0 (1 / 10 ^ 21) (61 / 10 ^ 33) 300) 300
       = 1 / 10 ^ 21"
proof -
  have m: "(0::real) < 61 / 10 ^ 33" and T: "(0::real) < 300"
    by simp_all
  from find_fermi_find_pop [OF valid_mksa m T, of 0 "1 / 10 ^ 21"] valid_mksa m T
  show ?thesis by blast
qed

text \<open>Where the exponent is at most \<open>-1075\<close> the double exponential underflows.\<close>

lemma exp_binary64_underflow:
  assumes "y \<le> - 1075"
  shows "exp_binary64 y = Some 0"
proof -
  have "ln 2 \<le> (1::real)"
    using ln_le_minus_one [of "2::real"] by simp
  then have "- 1075 \<le> - 1075 * ln (2::real)"
    by simp
  with assms have "y \<le> - 1075 * ln (2::real)"
    by linarith
  then have "exp y \<le> exp (- 1075 * ln (2::real))"
    by simp
  also have "\<dots> = 2 powr (- 1075)"
    by (simp add: powr_def)
  finally show ?thesis
    by (simp add: exp_binary64_def)
qed

lemma find_pop_binary64_underflow:
  assumes "(E_F - Esb) / (kB c * Te) \<le> - 1075"
  shows "find_pop_binary64 c Esb E_F md Te = Some 0"
proof -
  have "- (Esb - E_F) / (kB c * Te) = (E_F - Esb) / (kB c * Te)"
    by simp
  with assms have "exp_binary64 (- (Esb - E_F) / (kB c * Te)) = Some 0"
    by (simp only: exp_binary64_underflow)
  then show ?thesis
    by (simp add: find_pop_binary64_def gsl_log1p_def Let_def)
qed

text \<open>
  Claim C6, as the code has it. Over exact real arithmetic, for positive constants, a
  positive density-of-states mass and a positive temperature, the population of a subband
  grows strictly with the Fermi energy. In binary64 arithmetic it does not: where
  \<open>(E_F - Esb) / (kB Te)\<close> is at most \<open>-1075\<close> the exponential underflows to zero and
  \<open>find_pop\<close> returns zero for every such Fermi energy.
\<close>

theorem find_pop_strict_mono:
  assumes "valid_constants c" and "0 < m" and "0 < Te" and "E_F1 < E_F2"
  shows "find_pop c Esb E_F1 m Te < find_pop c Esb E_F2 m Te
       \<and> ((E_F2 - Esb) / (kB c * Te) \<le> - 1075 \<longrightarrow>
            find_pop_binary64 c Esb E_F1 m Te = Some 0
          \<and> find_pop_binary64 c Esb E_F2 m Te = Some 0)"
proof -
  from assms(1) have k: "0 < kB c" and h: "0 < hBar c"
    by (simp_all add: valid_constants_def)
  have kT: "0 < kB c * Te" using k assms(3) by simp
  have rho: "0 < m / (pi * hBar c * hBar c)" using h assms(2) by simp
  have y: "(E_F1 - Esb) / (kB c * Te) < (E_F2 - Esb) / (kB c * Te)"
    using kT assms(4) by (simp add: divide_strict_right_mono)
  then have "ln (1 + exp ((E_F1 - Esb) / (kB c * Te))) < ln (1 + exp ((E_F2 - Esb) / (kB c * Te)))"
    by (rule ln1p_exp_strict_mono)
  then have "kB c * Te * ln (1 + exp ((E_F1 - Esb) / (kB c * Te)))
      < kB c * Te * ln (1 + exp ((E_F2 - Esb) / (kB c * Te)))"
    using kT by (rule mult_strict_left_mono)
  then have strict: "find_pop c Esb E_F1 m Te < find_pop c Esb E_F2 m Te"
    unfolding find_pop_eq using rho by (rule mult_strict_left_mono)
  have "find_pop_binary64 c Esb E_F1 m Te = Some 0 \<and> find_pop_binary64 c Esb E_F2 m Te = Some 0"
    if "(E_F2 - Esb) / (kB c * Te) \<le> - 1075"
  proof -
    from y that have "(E_F1 - Esb) / (kB c * Te) \<le> - 1075"
      by linarith
    with that show ?thesis
      by (simp add: find_pop_binary64_underflow)
  qed
  with strict show ?thesis by blast
qed

theorem find_pop_strict_mono_witness:
  "valid_constants mksa \<and> (0::real) < 61 / 10 ^ 33 \<and> (0::real) < 300 \<and> (0::real) < 1 / 10 ^ 21
   \<and> find_pop mksa 0 0 (61 / 10 ^ 33) 300 < find_pop mksa 0 (1 / 10 ^ 21) (61 / 10 ^ 33) 300"
proof -
  have m: "(0::real) < 61 / 10 ^ 33" and T: "(0::real) < 300" and E: "(0::real) < 1 / 10 ^ 21"
    by simp_all
  from find_pop_strict_mono [OF valid_mksa m T E, where Esb = 0] valid_mksa m T E
  show ?thesis by blast
qed

theorem find_pop_underflow_counterexample:
  "(- (2 / 10 ^ 18) :: real) < - (1 / 10 ^ 18)
 \<and> find_pop_binary64 mksa 0 (- (2 / 10 ^ 18)) m_GaAs 4 = Some 0
 \<and> find_pop_binary64 mksa 0 (- (1 / 10 ^ 18)) m_GaAs 4 = Some 0
 \<and> find_pop_binary64 mksa 0 (- (2 / 10 ^ 18)) m_GaAs 4
     = find_pop_binary64 mksa 0 (- (1 / 10 ^ 18)) m_GaAs 4"
proof -
  have "(- (2 / 10 ^ 18) - 0) / (kB mksa * 4) \<le> (- 1075 :: real)"
    by (simp add: mksa_def)
  then have a: "find_pop_binary64 mksa 0 (- (2 / 10 ^ 18)) m_GaAs 4 = Some 0"
    by (rule find_pop_binary64_underflow)
  have "(- (1 / 10 ^ 18) - 0) / (kB mksa * 4) \<le> (- 1075 :: real)"
    by (simp add: mksa_def)
  then have b: "find_pop_binary64 mksa 0 (- (1 / 10 ^ 18)) m_GaAs 4 = Some 0"
    by (rule find_pop_binary64_underflow)
  show ?thesis
    unfolding a b by simp
qed

subsection \<open>The Debye model\<close>

lemma T_match_code: "T_D dm * root 3 (1.25 / ((pi * pi) * (pi * pi))) = T_match dm"
proof -
  have "1.25 / ((pi * pi) * (pi * pi)) = 5 / (4 * pi ^ 4)"
    by (simp add: power4_eq_xxxx)
  then show ?thesis by (simp add: T_match_def)
qed

lemma get_cp_approx_eq:
  "get_cp_approx c dm T = (if T \<le> T_match dm then get_cp_low_T c dm T else get_cp_high_T c dm)"
  unfolding get_cp_approx_def Let_def T_match_code by (simp add: not_less)

lemma get_cp_low_T_eq:
  "get_cp_low_T c dm T =
     12 * pi ^ 4 * Na c * kB c * T ^ 3 * real (natoms dm) / (5 * T_D dm ^ 3 * M dm)"
  by (simp add: get_cp_low_T_def Let_def power4_eq_xxxx power3_eq_cube)

lemma T_match_cube: "T_match dm ^ 3 = T_D dm ^ 3 * (5 / (4 * pi ^ 4))"
proof -
  have "root 3 (5 / (4 * pi ^ 4)) ^ 3 = 5 / (4 * pi ^ 4)"
    by (rule odd_real_root_pow) simp
  then show ?thesis by (simp add: T_match_def power_mult_distrib)
qed

text \<open>At the crossover temperature the low-temperature form takes the high-temperature value.\<close>

lemma low_meets_high:
  assumes "T_D dm \<noteq> 0"
  shows "get_cp_low_T c dm (T_match dm) = get_cp_high_T c dm"
  using assms by (simp add: get_cp_low_T_eq T_match_cube get_cp_high_T_def)

lemma isCont_get_cp_approx:
  assumes "T_D dm \<noteq> 0"
  shows "isCont (get_cp_approx c dm) (T_match dm)"
proof -
  define K where "K = 12 * pi ^ 4 * Na c * kB c * real (natoms dm) / (5 * T_D dm ^ 3 * M dm)"
  have "get_cp_low_T c dm = (\<lambda>T. K * T ^ 3)"
    by (rule ext) (simp add: get_cp_low_T_eq K_def)
  moreover have "continuous (at_left (T_match dm)) (\<lambda>T. K * T ^ 3)"
    by (intro continuous_intros)
  ultimately have low: "continuous (at_left (T_match dm)) (get_cp_low_T c dm)"
    by simp
  have high: "((\<lambda>T. get_cp_high_T c dm) \<longlongrightarrow> get_cp_low_T c dm (T_match dm))
      (at_right (T_match dm))"
    by (simp add: low_meets_high [OF assms])
  have "isCont (\<lambda>T. if T \<le> T_match dm then get_cp_low_T c dm T else get_cp_high_T c dm)
      (T_match dm)"
    using low high by (rule isCont_If_ge)
  then show ?thesis
    by (simp add: get_cp_approx_eq [abs_def])
qed

lemma T_D_aluminium: "T_D aluminium \<noteq> 0"
  by (simp add: aluminium_def DebyeModel_ctor_def)

text \<open>
  Claim C4, as the code has it. For every model and temperature \<open>get_cp_approx\<close> returns
  the high-temperature form \<open>3 Na kB natoms / M\<close> when \<open>T > T_match\<close> and the
  low-temperature form \<open>12 \<pi>\<^sup>4 Na kB T\<^sup>3 natoms / (5 T\<^sub>D\<^sup>3 M)\<close> when \<open>T \<le> T_match\<close>, with
  \<open>T_match = T\<^sub>D (5 / (4 \<pi>\<^sup>4))\<^sup>1\<^sup>/\<^sup>3\<close>. For a nonzero Debye temperature the two forms take
  the same value at \<open>T_match\<close>, so the function is continuous there: it has a kink, not a
  jump.
\<close>

theorem get_cp_approx_closed_forms:
  "(T > T_D dm * root 3 (5 / (4 * pi ^ 4)) \<longrightarrow>
      get_cp_approx c dm T = 3 * Na c * kB c * real (natoms dm) / M dm)
 \<and> (T \<le> T_D dm * root 3 (5 / (4 * pi ^ 4)) \<longrightarrow>
      get_cp_approx c dm T
        = 12 * pi ^ 4 * Na c * kB c * T ^ 3 * real (natoms dm) / (5 * T_D dm ^ 3 * M dm))
 \<and> (T_D dm \<noteq> 0 \<longrightarrow>
      get_cp_low_T c dm (T_match dm) = get_cp_high_T c dm
    \<and> isCont (get_cp_approx c dm) (T_match dm))"
  using low_meets_high [of dm c] isCont_get_cp_approx [of dm c]
  by (simp add: get_cp_approx_eq get_cp_low_T_eq get_cp_high_T_def T_match_def)

theorem get_cp_approx_closed_forms_witness:
  "get_cp_approx mksa aluminium 300 = 3 * Na mksa * kB mksa * real (natoms aluminium) / M aluminium
 \<and> get_cp_approx mksa aluminium 10
      = 12 * pi ^ 4 * Na mksa * kB mksa * 10 ^ 3 * real (natoms aluminium)
          / (5 * T_D aluminium ^ 3 * M aluminium)
 \<and> T_D aluminium \<noteq> 0
 \<and> get_cp_low_T mksa aluminium (T_match aluminium) = get_cp_high_T mksa aluminium"
proof -
  have r: "root 3 (5 / (4 * pi ^ 4)) ^ 3 = 5 / (4 * pi ^ 4)"
    by (rule odd_real_root_pow) simp
  have pi4: "(3::real) ^ 4 \<le> pi ^ 4"
    using pi_ge_three by (intro power_mono) simp_all
  have "5 / (4 * pi ^ 4) \<le> 5 / (4 * (3::real) ^ 4)"
    using pi4 by (intro divide_left_mono) simp_all
  also have "\<dots> < (1 / 2) ^ 3"
    by (simp add: power3_eq_cube)
  finally have up: "root 3 (5 / (4 * pi ^ 4)) ^ 3 < (1 / 2) ^ 3"
    unfolding r .
  have "root 3 (5 / (4 * pi ^ 4)) < 1 / 2"
    by (rule power_less_imp_less_base [OF up]) simp
  then have hi: "428 * root 3 (5 / (4 * pi ^ 4)) < 300"
    by simp
  have pi4': "pi ^ 4 < (4::real) ^ 4"
    using pi_less_4 pi_gt_zero by (intro power_strict_mono) simp_all
  have "(1 / 20) ^ 3 < 5 / (4 * (4::real) ^ 4)"
    by (simp add: power3_eq_cube)
  also have "\<dots> < 5 / (4 * pi ^ 4)"
    using pi4' by (intro divide_strict_left_mono) simp_all
  finally have lo': "(1 / 20) ^ 3 < root 3 (5 / (4 * pi ^ 4)) ^ 3"
    unfolding r .
  have "1 / 20 < root 3 (5 / (4 * pi ^ 4))"
    by (rule power_less_imp_less_base [OF lo']) simp
  then have lo: "10 \<le> 428 * root 3 (5 / (4 * pi ^ 4))"
    by simp
  have al: "T_D aluminium = 428"
    by (simp add: aluminium_def DebyeModel_ctor_def)
  from get_cp_approx_closed_forms [where T = 300 and dm = aluminium and c = mksa]
    get_cp_approx_closed_forms [where T = 10 and dm = aluminium and c = mksa]
    hi lo T_D_aluminium
  show ?thesis by (simp add: al)
qed

theorem get_cp_approx_continuous_counterexample:
  "isCont (get_cp_approx mksa aluminium) (T_D aluminium * root 3 (5 / (4 * pi ^ 4)))"
  using isCont_get_cp_approx [OF T_D_aluminium, of mksa] by (simp add: T_match_def)

text \<open>
  Claim C8. For a positive temperature \<open>get_internal_energy\<close> returns
  \<open>3 Na kB T natoms / M\<close> times the third Debye function at \<open>T\<^sub>D / T\<close>; for a temperature
  that is zero or negative both \<open>get_internal_energy\<close> and \<open>get_cp\<close> throw, and no value
  is returned.
\<close>

theorem get_internal_energy_spec:
  "(0 < T \<longrightarrow> get_internal_energy c debye_3 dm T
       = Inr (3 * Na c * kB c * T * real (natoms dm) / M dm * debye_3 (T_D dm / T)))
 \<and> (T \<le> 0 \<longrightarrow> get_internal_energy c debye_3 dm T = Inl InvalidTemperature
       \<and> get_cp c debye_3 deriv_forward dm T = Inl InvalidTemperature)"
  by (simp add: get_internal_energy_def get_cp_def Let_def)

theorem get_internal_energy_spec_witness:
  "\<forall>debye_3 deriv_forward.
     get_internal_energy mksa debye_3 aluminium 300
       = Inr (3 * Na mksa * kB mksa * 300 * real (natoms aluminium) / M aluminium
              * debye_3 (T_D aluminium / 300))
   \<and> get_internal_energy mksa debye_3 aluminium 0 = Inl InvalidTemperature
   \<and> get_cp mksa debye_3 deriv_forward aluminium 0 = Inl InvalidTemperature
   \<and> get_internal_energy mksa debye_3 aluminium (- 1) = Inl InvalidTemperature
   \<and> get_cp mksa debye_3 deriv_forward aluminium (- 1) = Inl InvalidTemperature"
proof (intro allI)
  fix debye_3 deriv_forward
  from get_internal_energy_spec [of 300 mksa debye_3 aluminium deriv_forward]
    get_internal_energy_spec [of 0 mksa debye_3 aluminium deriv_forward]
    get_internal_energy_spec [of "- 1" mksa debye_3 aluminium deriv_forward]
  show "get_internal_energy mksa debye_3 aluminium 300
       = Inr (3 * Na mksa * kB mksa * 300 * real (natoms aluminium) / M aluminium
              * debye_3 (T_D aluminium / 300))
   \<and> get_internal_energy mksa debye_3 aluminium 0 = Inl InvalidTemperature
   \<and> get_cp mksa debye_3 deriv_forward aluminium 0 = Inl InvalidTemperature
   \<and> get_internal_energy mksa debye_3 aluminium (- 1) = Inl InvalidTemperature
   \<and> get_cp mksa debye_3 deriv_forward aluminium (- 1) = Inl InvalidTemperature"
    by simp
qed

text \<open>
  Claim C10. The constructor checks nothing: whatever the three arguments are (a Debye
  temperature or a molar mass of zero included) it yields a model that holds them
  unchanged, and each query computes with the stored values as they are.
\<close>

theorem DebyeModel_ctor_unchecked:
  "T_D (DebyeModel_ctor t m n) = t \<and> M (DebyeModel_ctor t m n) = m
 \<and> natoms (DebyeModel_ctor t m n) = n
 \<and> get_cp_high_T c (DebyeModel_ctor t m n) = 3 * Na c * kB c * real n / m
 \<and> get_cp_low_T c (DebyeModel_ctor t m n) T
     = 12 * (pi * pi) * (pi * pi) * Na c * kB c * T * T * T / (t * t * t * 5) * real n / m
 \<and> get_cp_approx c (DebyeModel_ctor t m n) T
     = (if T > t * root 3 (1.25 / ((pi * pi) * (pi * pi))) then 3 * Na c * kB c * real n / m
        else 12 * (pi * pi) * (pi * pi) * Na c * kB c * T * T * T / (t * t * t * 5) * real n / m)
 \<and> get_internal_energy c debye_3 (DebyeModel_ctor t m n) T
     = (if T \<le> 0 then Inl InvalidTemperature
        else Inr (3 * Na c * kB c * T * debye_3 (t / T) * real n / m))
 \<and> get_cp c debye_3 deriv_forward (DebyeModel_ctor t m n) T
     = (if T \<le> 0 then Inl InvalidTemperature
        else deriv_forward (find_U c debye_3 (DebyeModel_ctor t m n)) T 1)"
  by (simp add: DebyeModel_ctor_def get_cp_high_T_def get_cp_low_T_def get_cp_approx_def
      get_internal_energy_def get_cp_def Let_def)

subsection \<open>Temperature checks\<close>

text \<open>
  Claim C3, as the code has it. A temperature that is zero or negative makes
  \<open>get_internal_energy\<close> and \<open>get_cp\<close> throw. The other entry points that take a
  temperature have no check: \<open>get_cp_low_T\<close>, \<open>get_cp_approx\<close>, \<open>f_FD\<close>, \<open>f_FD_ionised\<close>,
  \<open>find_pop\<close> and \<open>find_fermi\<close> return a value, and \<open>find_fermi_global\<close> never reports an
  invalid temperature.
\<close>

theorem temperature_checked_only_by_energy_and_cp:
  assumes "T \<le> 0"
  shows "debye_outcome c debye_3 deriv_forward dm Get_internal_energy T = Inl InvalidTemperature
       \<and> debye_outcome c debye_3 deriv_forward dm Get_cp T = Inl InvalidTemperature
       \<and> debye_outcome c debye_3 deriv_forward dm Get_cp_low_T T = Inr (get_cp_low_T c dm T)
       \<and> debye_outcome c debye_3 deriv_forward dm Get_cp_approx T = Inr (get_cp_approx c dm T)
       \<and> fermi_outcome c call T \<noteq> Inl InvalidTemperature
       \<and> (\<exists>v. fermi_outcome c call T = Inr v)
       \<and> find_fermi_global c m N T E \<noteq> Some (Inl InvalidTemperature)"
proof -
  have "fermi_outcome c call T \<noteq> Inl InvalidTemperature"
    and "\<exists>v. fermi_outcome c call T = Inr v"
    by (cases call; simp add: fermi_outcome_def)+
  moreover have "find_fermi_global c m N T E \<noteq> Some (Inl InvalidTemperature)"
    by (auto simp add: find_fermi_global_def valarray_at_def Let_def)
  ultimately show ?thesis
    using assms by (simp add: debye_outcome_def get_internal_energy_def get_cp_def)
qed

theorem temperature_checked_only_by_energy_and_cp_witness:
  "\<forall>debye_3 deriv_forward.
     (- 1 :: real) \<le> 0
   \<and> debye_outcome mksa debye_3 deriv_forward aluminium Get_internal_energy (- 1)
       = Inl InvalidTemperature
   \<and> debye_outcome mksa debye_3 deriv_forward aluminium Get_cp (- 1) = Inl InvalidTemperature
   \<and> debye_outcome mksa debye_3 deriv_forward aluminium Get_cp_approx (- 1)
       = Inr (get_cp_approx mksa aluminium (- 1))
   \<and> fermi_outcome mksa (Find_pop 0 0 1) (- 1) \<noteq> Inl InvalidTemperature"
proof (intro allI)
  fix debye_3 deriv_forward
  have T: "(- 1 :: real) \<le> 0" by simp
  from temperature_checked_only_by_energy_and_cp
    [OF T, of mksa debye_3 deriv_forward aluminium "Find_pop 0 0 1"] T
  show "(- 1 :: real) \<le> 0
   \<and> debye_outcome mksa debye_3 deriv_forward aluminium Get_internal_energy (- 1)
       = Inl InvalidTemperature
   \<and> debye_outcome mksa debye_3 deriv_forward aluminium Get_cp (- 1) = Inl InvalidTemperature
   \<and> debye_outcome mksa debye_3 deriv_forward aluminium Get_cp_approx (- 1)
       = Inr (get_cp_approx mksa aluminium (- 1))
   \<and> fermi_outcome mksa (Find_pop 0 0 1) (- 1) \<noteq> Inl InvalidTemperature"
    by blast
qed

theorem f_FD_unchecked_counterexample:
  "(- 1 :: real) \<le> 0
 \<and> fermi_outcome mksa (F_FD 0 0) (- 1) = Inr (1 / 2)
 \<and> fermi_outcome mksa (F_FD 0 0) (- 1) \<noteq> Inl InvalidTemperature"
  by (simp add: fermi_outcome_def f_FD_def)

subsection \<open>Array reads of the solver\<close>

lemma size_t_pred_in_bounds: "0 < n \<Longrightarrow> size_t_pred n < n"
proof -
  assume n: "0 < n"
  show ?thesis
  proof (cases "n < 2 ^ 64")
    case True
    from n have "n + (2 ^ 64 - 1) = (n - 1) + 2 ^ 64"
      by simp
    then have "size_t_pred n = ((n - 1) + 2 ^ 64) mod 2 ^ 64"
      by (simp only: size_t_pred_def)
    also have "\<dots> = (n - 1) mod 2 ^ 64"
      by (rule mod_add_self2)
    also from True have "\<dots> = n - 1"
      by simp
    finally show ?thesis using n by simp
  next
    case False
    have "size_t_pred n < 2 ^ 64" by (simp add: size_t_pred_def)
    with False show ?thesis by simp
  qed
qed

lemma size_t_pred_zero: "size_t_pred 0 = 2 ^ 64 - 1"
  by (simp add: size_t_pred_def)

text \<open>
  Claim C9. \<open>find_fermi_global\<close> reads the first element of the array of subband minima
  and the element at \<^verbatim>\<open>nst-1\<close> before anything else. For an array that is not empty both
  indices are below the size, and the reads give its first and last element; for the
  empty array \<^verbatim>\<open>nst-1\<close> wraps, both indices are outside the array, and the call has no
  defined result.
\<close>

theorem find_fermi_global_reads:
  "(E \<noteq> [] \<longrightarrow>
      0 < length E \<and> size_t_pred (length E) < length E
    \<and> valarray_at E 0 = Inr (hd E)
    \<and> (length E < 2 ^ 64 \<longrightarrow> valarray_at E (size_t_pred (length E)) = Inr (last E))
    \<and> find_fermi_global c m N Te E \<noteq> Some (Inl OutOfBounds))
 \<and> \<not> 0 < length ([] :: real list)
 \<and> \<not> size_t_pred (length ([] :: real list)) < length ([] :: real list)
 \<and> valarray_at [] 0 = Inl OutOfBounds
 \<and> valarray_at [] (size_t_pred (length ([] :: real list))) = Inl OutOfBounds
 \<and> find_fermi_global c m N Te [] = Some (Inl OutOfBounds)"
proof -
  have empty: "find_fermi_global c m N Te [] = Some (Inl OutOfBounds)"
    by (simp add: find_fermi_global_def valarray_at_def)
  {
    assume ne: "E \<noteq> []"
    then have len: "0 < length E" by simp
    then have pred: "size_t_pred (length E) < length E"
      by (rule size_t_pred_in_bounds)
    from len have first: "valarray_at E 0 = Inr (hd E)"
      by (simp add: valarray_at_def hd_conv_nth)
    have last: "valarray_at E (size_t_pred (length E)) = Inr (last E)" if "length E < 2 ^ 64"
    proof -
      from len have "length E + (2 ^ 64 - 1) = (length E - 1) + 2 ^ 64"
        by simp
      then have "size_t_pred (length E) = ((length E - 1) + 2 ^ 64) mod 2 ^ 64"
        by (simp only: size_t_pred_def)
      also have "\<dots> = (length E - 1) mod 2 ^ 64"
        by (rule mod_add_self2)
      also from that have "\<dots> = length E - 1"
        by simp
      finally show ?thesis
        using ne len by (simp add: valarray_at_def last_conv_nth)
    qed
    have "find_fermi_global c m N Te E \<noteq> Some (Inl OutOfBounds)"
      using len pred by (auto simp add: find_fermi_global_def valarray_at_def Let_def)
    note len pred first last this
  }
  with empty show ?thesis
    by (simp add: valarray_at_def size_t_pred_zero)
qed

theorem find_fermi_global_reads_witness:
  "[0, 1 / 10 ^ 21] \<noteq> ([] :: real list)
 \<and> valarray_at [0, 1 / 10 ^ 21] 0 = Inr 0
 \<and> length [0, 1 / 10 ^ 21 :: real] < 2 ^ 64
 \<and> valarray_at [0, 1 / 10 ^ 21] (size_t_pred (length [0, 1 / 10 ^ 21 :: real])) = Inr (1 / 10 ^ 21)
 \<and> find_fermi_global mksa (61 / 10 ^ 33) (10 ^ 15) 300 [0, 1 / 10 ^ 21] \<noteq> Some (Inl OutOfBounds)"
  using find_fermi_global_reads
    [where E = "[0, 1 / 10 ^ 21]" and c = mksa and m = "61 / 10 ^ 33" and N = "10 ^ 15" and Te = 300]
  by simp

subsection \<open>The bisection loop\<close>

lemma bisect_step_mid:
  "E_mid (bisect_step c m N Te E sg s)
     = (E_max (bisect_step c m N Te E sg s) + E_min (bisect_step c m N Te E sg s)) / 2"
  by (simp add: bisect_step_def bisect_update_def Let_def)

lemma bisect_step_width:
  assumes "E_mid s = (E_max s + E_min s) / 2"
  shows "\<bar>E_max (bisect_step c m N Te E sg s) - E_min (bisect_step c m N Te E sg s)\<bar>
           = \<bar>E_max s - E_min s\<bar> / 2"
  using assms by (simp add: bisect_step_def bisect_update_def Let_def field_simps abs_if)

lemma bisect_funpow_mid:
  assumes "E_mid s = (E_max s + E_min s) / 2"
  shows "E_mid ((bisect_step c m N Te E sg ^^ k) s)
     = (E_max ((bisect_step c m N Te E sg ^^ k) s) + E_min ((bisect_step c m N Te E sg ^^ k) s)) / 2"
  using assms by (cases k) (simp_all add: bisect_step_mid)

lemma bisect_funpow_width:
  assumes "E_mid s = (E_max s + E_min s) / 2"
  shows "\<bar>E_max ((bisect_step c m N Te E sg ^^ k) s) - E_min ((bisect_step c m N Te E sg ^^ k) s)\<bar>
           = \<bar>E_max s - E_min s\<bar> / 2 ^ k"
proof (induction k)
  case 0
  show ?case by simp
next
  case (Suc k)
  have "\<bar>E_max ((bisect_step c m N Te E sg ^^ Suc k) s) - E_min ((bisect_step c m N Te E sg ^^ Suc k) s)\<bar>
      = \<bar>E_max ((bisect_step c m N Te E sg ^^ k) s) - E_min ((bisect_step c m N Te E sg ^^ k) s)\<bar> / 2"
    using bisect_step_width [OF bisect_funpow_mid [OF assms]] by simp
  then show ?case by (simp add: Suc.IH)
qed

text \<open>
  For an array of fewer than \<open>2 ^ 32\<close> elements the counter of the inner loop does not
  wrap, and the loop ends with the sum over the array.
\<close>

lemma population_loop_from:
  assumes "length E < 2 ^ 32" and "ist \<le> length E" and "n = length E - ist"
  shows "population_loop c m Te E E_F ist tot
           = Some (foldl (\<lambda>tot Esb. tot + find_pop c Esb E_F m Te) tot (drop ist E))"
  using assms(2,3)
proof (induction n arbitrary: ist tot)
  case 0
  then show ?case
    by (subst population_loop.simps) simp
next
  case (Suc n)
  then have lt: "ist < length E" by simp
  with assms(1) have wrap: "(ist + 1) mod 2 ^ 32 = ist + 1"
    by simp
  from Suc.prems lt have "ist + 1 \<le> length E" and "n = length E - (ist + 1)"
    by simp_all
  then have IH: "population_loop c m Te E E_F (ist + 1) (tot + find_pop c (E ! ist) E_F m Te)
      = Some (foldl (\<lambda>tot Esb. tot + find_pop c Esb E_F m Te)
                (tot + find_pop c (E ! ist) E_F m Te) (drop (ist + 1) E))"
    by (rule Suc.IH)
  have cons: "drop ist E = E ! ist # drop (ist + 1) E"
    using lt by (simp add: Cons_nth_drop_Suc)
  have "population_loop c m Te E E_F ist tot
      = population_loop c m Te E E_F ((ist + 1) mod 2 ^ 32) (tot + find_pop c (E ! ist) E_F m Te)"
    using lt by (subst population_loop.simps) simp
  also have "\<dots> = population_loop c m Te E E_F (ist + 1) (tot + find_pop c (E ! ist) E_F m Te)"
    by (simp only: wrap)
  also note IH
  also have "foldl (\<lambda>tot Esb. tot + find_pop c Esb E_F m Te)
                (tot + find_pop c (E ! ist) E_F m Te) (drop (ist + 1) E)
      = foldl (\<lambda>tot Esb. tot + find_pop c Esb E_F m Te) tot (drop ist E)"
    by (simp only: cons foldl_Cons)
  finally show ?case .
qed

lemma population_loop_total:
  assumes "length E < 2 ^ 32"
  shows "population_loop c m Te E E_F 0 0 = Some (total_population c m Te E E_F)"
  using population_loop_from [OF assms, where ist = 0 and n = "length E"]
  by (simp add: total_population_def)

text \<open>
  For an array of \<open>2 ^ 32\<close> elements or more the counter stays below the size, and the
  inner loop does not end.
\<close>

lemma population_loop_returns:
  assumes "population_loop c m Te E E_F ist tot = Some y"
  shows "ist < 2 ^ 32 \<longrightarrow> length E < 2 ^ 32"
  using assms
proof (induction rule: population_loop.raw_induct [rotated, consumes 1, case_names body])
  case (body loop c m Te E E_F ist tot y)
  show ?case
  proof (cases "ist < length E")
    case True
    with body(2) have "loop c m Te E E_F ((ist + 1) mod 2 ^ 32)
        (tot + find_pop c (E ! ist) E_F m Te) = Some y"
      by simp
    then have "(ist + 1) mod 2 ^ 32 < 2 ^ 32 \<longrightarrow> length E < 2 ^ 32"
      by (rule body(1))
    then show ?thesis by simp
  next
    case False
    then show ?thesis by simp
  qed
qed

lemma population_loop_diverges:
  assumes "2 ^ 32 \<le> length E"
  shows "population_loop c m Te E E_F 0 0 = None"
proof (cases "population_loop c m Te E E_F 0 0")
  case None
  then show ?thesis .
next
  case (Some y)
  then have "(0::nat) < 2 ^ 32 \<longrightarrow> length E < 2 ^ 32"
    by (rule population_loop_returns)
  with assms show ?thesis by simp
qed

lemma bisect_loop_simps_small:
  assumes "length E < 2 ^ 32"
  shows "bisect_loop c m N Te E sg s =
     (if bisect_cond c s then bisect_loop c m N Te E sg (bisect_step c m N Te E sg s)
      else Some s)"
  by (subst bisect_loop.simps)
    (simp add: population_loop_total [OF assms] bisect_step_def)

text \<open>
  The loop runs the body exactly \<open>k\<close> times when the condition holds for the first \<open>k\<close>
  states and fails for the next.
\<close>

lemma bisect_loop_unroll:
  assumes "length E < 2 ^ 32"
    and "\<forall>j<k. bisect_cond c ((bisect_step c m N Te E sg ^^ j) s)"
    and "\<not> bisect_cond c ((bisect_step c m N Te E sg ^^ k) s)"
  shows "bisect_loop c m N Te E sg s = Some ((bisect_step c m N Te E sg ^^ k) s)"
  using assms(2,3)
proof (induction k arbitrary: s)
  case 0
  then show ?case by (simp add: bisect_loop_simps_small [OF assms(1)])
next
  case (Suc k)
  from Suc.prems(1) have c0: "bisect_cond c s" by force
  have "\<forall>j<k. bisect_cond c ((bisect_step c m N Te E sg ^^ j) (bisect_step c m N Te E sg s))"
  proof (intro allI impI)
    fix j assume "j < k"
    then have "Suc j < Suc k" by simp
    with Suc.prems(1) have "bisect_cond c ((bisect_step c m N Te E sg ^^ Suc j) s)" by blast
    then show "bisect_cond c ((bisect_step c m N Te E sg ^^ j) (bisect_step c m N Te E sg s))"
      by (simp add: funpow_swap1)
  qed
  moreover from Suc.prems(2)
  have "\<not> bisect_cond c ((bisect_step c m N Te E sg ^^ k) (bisect_step c m N Te E sg s))"
    by (simp add: funpow_swap1)
  ultimately have "bisect_loop c m N Te E sg (bisect_step c m N Te E sg s)
      = Some ((bisect_step c m N Te E sg ^^ k) (bisect_step c m N Te E sg s))"
    by (rule Suc.IH)
  with c0 show ?case
    by (subst bisect_loop_simps_small [OF assms(1)]) (simp add: funpow_swap1)
qed

text \<open>How often a width \<open>w\<close> must be halved to come down to a tolerance.\<close>

lemma halvings_needed:
  fixes w tol :: real
  assumes "0 < tol" and "0 < w"
  defines "K \<equiv> nat \<lceil>log 2 (w / tol)\<rceil>"
  shows "w / 2 ^ K \<le> tol" and "\<forall>j<K. tol < w / 2 ^ j"
proof -
  have r: "0 < w / tol" using assms by simp
  have "log 2 (w / tol) \<le> real K"
    unfolding K_def by linarith
  then have "w / tol \<le> 2 powr real K"
    using r by (simp add: log_le_iff)
  then have "w / tol \<le> 2 ^ K"
    by (simp add: powr_realpow)
  then show "w / 2 ^ K \<le> tol"
    using assms(1) by (simp add: field_simps)
  show "\<forall>j<K. tol < w / 2 ^ j"
  proof (intro allI impI)
    fix j assume "j < K"
    then have "int j < \<lceil>log 2 (w / tol)\<rceil>"
      unfolding K_def by linarith
    then have "real j < log 2 (w / tol)"
      by (simp add: less_ceiling_iff)
    then have "2 powr real j < w / tol"
      using r by (simp add: less_log_iff)
    then have "2 ^ j < w / tol"
      by (simp add: powr_realpow)
    then show "tol < w / 2 ^ j"
      using assms(1) by (simp add: field_simps)
  qed
qed

subsection \<open>The solver and bounds on the populations\<close>

lemma find_fermi_global_nonempty:
  assumes "E \<noteq> []"
  shows "find_fermi_global c m N Te E =
    (if endpoint_sign c m N Te E (E_min (search_bracket c Te E))
          \<noteq> endpoint_sign c m N Te E (E_max (search_bracket c Te E))
     then map_option (\<lambda>s. Inr (E_mid s))
            (bisect_loop c m N Te E (endpoint_sign c m N Te E (E_min (search_bracket c Te E)))
               (search_bracket c Te E))
     else Some (Inl NoSolutionInRange))"
proof -
  from assms have "0 < length E" by simp
  then have "size_t_pred (length E) < length E" by (rule size_t_pred_in_bounds)
  with \<open>0 < length E\<close> show ?thesis
    by (simp add: find_fermi_global_def valarray_at_def Let_def endpoint_sign_def search_bracket_def)
qed

lemma search_bracket_simps:
  "E_min (search_bracket c Te E) = E ! 0 - 100 * kB c * Te"
  "E_max (search_bracket c Te E) = E ! size_t_pred (length E) + 100 * kB c * Te"
  "E_mid (search_bracket c Te E)
     = (E_max (search_bracket c Te E) + E_min (search_bracket c Te E)) / 2"
  by (simp_all add: search_bracket_def initial_bracket_def Let_def)

lemma total_population_sum:
  "total_population c m Te E E_F = (\<Sum>Esb\<leftarrow>E. find_pop c Esb E_F m Te)"
proof -
  have "foldl (\<lambda>tot Esb. tot + find_pop c Esb E_F m Te) a E
      = a + (\<Sum>Esb\<leftarrow>E. find_pop c Esb E_F m Te)" for a
    by (induction E arbitrary: a) simp_all
  then show ?thesis by (simp add: total_population_def)
qed

lemma ln1p_exp_ge: "y \<le> ln (1 + exp (y::real))"
proof -
  have "ln (exp y) \<le> ln (1 + exp y)"
    by (subst ln_le_cancel_iff) (simp_all add: add_pos_pos)
  then show ?thesis by simp
qed

lemma ln1p_exp_le: "ln (1 + exp (y::real)) \<le> max y 0 + 1"
proof -
  have "exp y \<le> exp (max y 0)" and "1 \<le> exp (max y 0)"
    by simp_all
  then have "1 + exp y \<le> 2 * exp (max y 0)"
    by linarith
  also have "\<dots> \<le> exp 1 * exp (max y 0)"
    using exp_ge_add_one_self [of 1] by (intro mult_right_mono) simp_all
  also have "\<dots> = exp (max y 0 + 1)"
    by (simp add: exp_add)
  finally have "ln (1 + exp y) \<le> ln (exp (max y 0 + 1))"
    by (subst ln_le_cancel_iff) (simp_all add: add_pos_pos)
  then show ?thesis by simp
qed

lemma find_pop_pos:
  assumes "valid_constants c" and "0 < m" and "0 < Te"
  shows "0 < find_pop c Esb E_F m Te"
proof -
  from assms(1) have k: "0 < kB c" and h: "0 < hBar c"
    by (simp_all add: valid_constants_def)
  show ?thesis
    unfolding find_pop_eq using k h assms(2,3) ln1p_exp_pos
    by (intro mult_pos_pos divide_pos_pos) simp_all
qed

lemma rho_bounds:
  assumes "valid_constants c" and "0 < m"
  shows "m / (4 * hBar c * hBar c) \<le> m / (pi * hBar c * hBar c)"
    and "m / (pi * hBar c * hBar c) \<le> m / (3 * hBar c * hBar c)"
proof -
  from assms(1) have h: "0 < hBar c"
    by (simp add: valid_constants_def)
  have hh: "0 < hBar c * hBar c" using h by simp
  have "pi * (hBar c * hBar c) \<le> 4 * (hBar c * hBar c)"
    using pi_less_4 hh by (intro mult_right_mono) simp_all
  then have "m / (4 * (hBar c * hBar c)) \<le> m / (pi * (hBar c * hBar c))"
    using assms(2) hh by (intro frac_le) simp_all
  then show "m / (4 * hBar c * hBar c) \<le> m / (pi * hBar c * hBar c)"
    by (simp only: mult.assoc)
  have "3 * (hBar c * hBar c) \<le> pi * (hBar c * hBar c)"
    using pi_ge_three hh by (intro mult_right_mono) simp_all
  then have "m / (pi * (hBar c * hBar c)) \<le> m / (3 * (hBar c * hBar c))"
    using assms(2) hh by (intro frac_le) simp_all
  then show "m / (pi * hBar c * hBar c) \<le> m / (3 * hBar c * hBar c)"
    by (simp only: mult.assoc)
qed

lemma find_pop_upper:
  assumes "valid_constants c" and "0 < m" and "0 < Te"
  shows "find_pop c Esb E_F m Te \<le> m / (3 * hBar c * hBar c) * (max (E_F - Esb) 0 + kB c * Te)"
proof -
  from assms(1) have k: "0 < kB c" and h: "0 < hBar c"
    by (simp_all add: valid_constants_def)
  have kT: "0 < kB c * Te" using k assms(3) by simp
  define y where "y = (E_F - Esb) / (kB c * Te)"
  have "kB c * Te * ln (1 + exp y) \<le> kB c * Te * (max y 0 + 1)"
    using kT ln1p_exp_le [of y] by (intro mult_left_mono) simp_all
  then have b: "kB c * Te * ln (1 + exp y) \<le> kB c * Te * max y 0 + kB c * Te"
    by (simp add: algebra_simps)
  have "kB c * Te * y = E_F - Esb"
    using k assms(3) by (simp add: y_def)
  moreover have "kB c * Te * max y 0 = max (kB c * Te * y) (kB c * Te * 0)"
    using kT by (subst max_mult_distrib_left) simp
  ultimately have "kB c * Te * max y 0 = max (E_F - Esb) 0"
    by simp
  with b have a: "kB c * Te * ln (1 + exp y) \<le> max (E_F - Esb) 0 + kB c * Te"
    by simp
  have nn: "0 \<le> kB c * Te * ln (1 + exp y)"
    using kT ln1p_exp_pos [of y] by simp
  have "find_pop c Esb E_F m Te = m / (pi * hBar c * hBar c) * (kB c * Te * ln (1 + exp y))"
    by (simp add: find_pop_eq y_def)
  also have "\<dots> \<le> m / (3 * hBar c * hBar c) * (kB c * Te * ln (1 + exp y))"
    using rho_bounds(2) [OF assms(1,2)] nn by (rule mult_right_mono)
  also have "\<dots> \<le> m / (3 * hBar c * hBar c) * (max (E_F - Esb) 0 + kB c * Te)"
    using a h assms(2) by (intro mult_left_mono) simp_all
  finally show ?thesis .
qed

lemma find_pop_lower:
  assumes "valid_constants c" and "0 < m" and "0 < Te" and "Esb \<le> E_F"
  shows "m / (4 * hBar c * hBar c) * (E_F - Esb) \<le> find_pop c Esb E_F m Te"
proof -
  from assms(1) have k: "0 < kB c" and h: "0 < hBar c"
    by (simp_all add: valid_constants_def)
  have kT: "0 < kB c * Te" using k assms(3) by simp
  define y where "y = (E_F - Esb) / (kB c * Te)"
  have "kB c * Te * y \<le> kB c * Te * ln (1 + exp y)"
    using kT ln1p_exp_ge [of y] by (intro mult_left_mono) simp_all
  moreover have "kB c * Te * y = E_F - Esb"
    using k assms(3) by (simp add: y_def)
  ultimately have a: "E_F - Esb \<le> kB c * Te * ln (1 + exp y)"
    by simp
  have "m / (4 * hBar c * hBar c) * (E_F - Esb) \<le> m / (pi * hBar c * hBar c) * (E_F - Esb)"
    using rho_bounds(1) [OF assms(1,2)] assms(4) by (intro mult_right_mono) simp_all
  also have "\<dots> \<le> m / (pi * hBar c * hBar c) * (kB c * Te * ln (1 + exp y))"
    using a h assms(2) by (intro mult_left_mono) simp_all
  also have "\<dots> = find_pop c Esb E_F m Te"
    by (simp add: find_pop_eq y_def)
  finally show ?thesis .
qed

subsection \<open>Bounds at the concrete inputs\<close>

lemma m_GaAs_pos: "0 < m_GaAs"
  by (simp add: m_GaAs_def)

lemma ladder2_bracket:
  "E_min (search_bracket mksa 4 ladder2) = - (55226016 / 10 ^ 28)"
  "E_max (search_bracket mksa 4 ladder2) = 65226016 / 10 ^ 28"
  by (simp_all add: search_bracket_simps ladder2_def mksa_def size_t_pred_def)

lemma find_pop_mksa_upper:
  "find_pop mksa Esb E_F m_GaAs 4 \<le> 61 / (3 * 105457162825 ^ 2) * 10 ^ 57 * (max (E_F - Esb) 0 + 55226016 / 10 ^ 30)"
proof -
  have "find_pop mksa Esb E_F m_GaAs 4
      \<le> m_GaAs / (3 * hBar mksa * hBar mksa) * (max (E_F - Esb) 0 + kB mksa * 4)"
    by (rule find_pop_upper [OF valid_mksa m_GaAs_pos]) simp
  also have "m_GaAs / (3 * hBar mksa * hBar mksa) = 61 / (3 * 105457162825 ^ 2) * 10 ^ 57"
    by (simp add: mksa_def m_GaAs_def power2_eq_square)
  also have "kB mksa * 4 = 55226016 / 10 ^ 30"
    by (simp add: mksa_def)
  finally show ?thesis .
qed

lemma find_pop_mksa_lower:
  assumes "Esb \<le> E_F"
  shows "61 / (4 * 105457162825 ^ 2) * 10 ^ 57 * (E_F - Esb) \<le> find_pop mksa Esb E_F m_GaAs 4"
proof -
  have "m_GaAs / (4 * hBar mksa * hBar mksa) * (E_F - Esb) \<le> find_pop mksa Esb E_F m_GaAs 4"
    by (rule find_pop_lower [OF valid_mksa m_GaAs_pos _ assms]) simp
  moreover have "m_GaAs / (4 * hBar mksa * hBar mksa) = 61 / (4 * 105457162825 ^ 2) * 10 ^ 57"
    by (simp add: mksa_def m_GaAs_def power2_eq_square)
  ultimately show ?thesis by simp
qed

lemma ladder2_low:
  "find_pop mksa Esb (- (55226016 / 10 ^ 28)) m_GaAs 4 < 2 * 10 ^ 14" if "0 \<le> Esb"
proof -
  have "find_pop mksa Esb (- (55226016 / 10 ^ 28)) m_GaAs 4
     \<le> 61 / (3 * 105457162825 ^ 2) * 10 ^ 57 * (max (- (55226016 / 10 ^ 28) - Esb) 0 + 55226016 / 10 ^ 30)"
    by (rule find_pop_mksa_upper)
  also have "max (- (55226016 / 10 ^ 28) - Esb) 0 = 0"
    using that by simp
  also have "61 / (3 * 105457162825 ^ 2) * 10 ^ 57 * (0 + 55226016 / 10 ^ 30) < (2 * 10 ^ 14 :: real)"
    by simp
  finally show ?thesis .
qed

lemma ladder2_high:
  assumes "Esb \<le> 65226016 / 10 ^ 28"
  shows "61 / (4 * 105457162825 ^ 2) * 10 ^ 57 * (65226016 / 10 ^ 28 - Esb)
           \<le> find_pop mksa Esb (65226016 / 10 ^ 28) m_GaAs 4"
  using assms by (rule find_pop_mksa_lower)

lemma ladder2_nonempty: "ladder2 \<noteq> []"
  by (simp add: ladder2_def)

lemma ladder2_signs_1e15:
  "endpoint_sign mksa m_GaAs N_1e15 4 ladder2 (E_min (search_bracket mksa 4 ladder2)) = - 1"
  "endpoint_sign mksa m_GaAs N_1e15 4 ladder2 (E_max (search_bracket mksa 4 ladder2)) = 1"
proof -
  have "find_pop mksa 0 (- (55226016 / 10 ^ 28)) m_GaAs 4 < 2 * 10 ^ 14"
    by (rule ladder2_low) simp
  then have "find_pop mksa (ladder2 ! 0) (- (55226016 / 10 ^ 28)) m_GaAs 4 - N_1e15 < 0"
    by (simp add: ladder2_def N_1e15_def)
  then show "endpoint_sign mksa m_GaAs N_1e15 4 ladder2 (E_min (search_bracket mksa 4 ladder2)) = - 1"
    by (simp add: endpoint_sign_def GSL_SIGN_def ladder2_bracket)
  have "61 / (4 * 105457162825 ^ 2) * 10 ^ 57 * (65226016 / 10 ^ 28 - 0)
           \<le> find_pop mksa 0 (65226016 / 10 ^ 28) m_GaAs 4"
    by (rule ladder2_high) simp
  moreover have "(10 ^ 15 :: real) \<le> 61 / (4 * 105457162825 ^ 2) * 10 ^ 57 * (65226016 / 10 ^ 28 - 0)"
    by simp
  ultimately have "10 ^ 15 \<le> find_pop mksa 0 (65226016 / 10 ^ 28) m_GaAs 4"
    by linarith
  then have "0 \<le> find_pop mksa (ladder2 ! 0) (65226016 / 10 ^ 28) m_GaAs 4 - N_1e15"
    by (simp add: ladder2_def N_1e15_def)
  then show "endpoint_sign mksa m_GaAs N_1e15 4 ladder2 (E_max (search_bracket mksa 4 ladder2)) = 1"
    by (simp add: endpoint_sign_def GSL_SIGN_def ladder2_bracket)
qed


subsection \<open>Termination of the bisection\<close>

lemma solvable_width_pos:
  assumes "endpoint_sign c m N Te E (E_min s) \<noteq> endpoint_sign c m N Te E (E_max s)"
  shows "0 < \<bar>E_max s - E_min s\<bar>"
proof -
  from assms have "E_min s \<noteq> E_max s" by auto
  then show ?thesis by simp
qed

lemma bisect_loop_iterations:
  assumes "0 < e c" and "E_mid s = (E_max s + E_min s) / 2" and "0 < \<bar>E_max s - E_min s\<bar>"
    and "length E < 2 ^ 32"
  defines "K \<equiv> nat \<lceil>log 2 (\<bar>E_max s - E_min s\<bar> / (1 / 10 ^ 8 * e c))\<rceil>"
  shows "\<forall>j<K. bisect_cond c ((bisect_step c m N Te E sg ^^ j) s)"
    and "\<not> bisect_cond c ((bisect_step c m N Te E sg ^^ K) s)"
    and "bisect_loop c m N Te E sg s = Some ((bisect_step c m N Te E sg ^^ K) s)"
proof -
  have tol: "0 < 1 / 10 ^ 8 * e c" using assms(1) by simp
  note h = halvings_needed [OF tol assms(3), folded K_def]
  show a: "\<forall>j<K. bisect_cond c ((bisect_step c m N Te E sg ^^ j) s)"
    using h(2) by (simp add: bisect_cond_def bisect_funpow_width [OF assms(2)])
  show b: "\<not> bisect_cond c ((bisect_step c m N Te E sg ^^ K) s)"
    using h(1) by (simp add: bisect_cond_def bisect_funpow_width [OF assms(2)] not_less)
  from assms(4) a b show "bisect_loop c m N Te E sg s = Some ((bisect_step c m N Te E sg ^^ K) s)"
    by (rule bisect_loop_unroll)
qed

text \<open>
  Claim C7, as the code has it. Over exact real arithmetic and for an array of fewer
  than \<open>2 ^ 32\<close> subbands, in the solvable branch of \<open>find_fermi_global\<close> every run of
  the loop body halves the width of the bracket (the midpoint replaces \<open>E_min\<close> when the
  sign of the residual at the midpoint is \<open>sign_min\<close>, and \<open>E_max\<close> otherwise), and for a
  positive tolerance \<open>1e-8 e\<close> the loop ends after exactly \<open>\<lceil>log\<^sub>2 (w / tolerance)\<rceil>\<close> runs,
  counted as a natural number, where \<open>w\<close> is the width of the initial bracket: the
  condition holds for the states before that many runs and fails after them. The number
  depends on the first and the last subband minimum, the temperature and the constants
  only, not on how many subbands there are.
\<close>

theorem bisection_halves_and_terminates:
  assumes "valid_constants c" and "E \<noteq> []"
    and "endpoint_sign c m N Te E (E_min (search_bracket c Te E))
           \<noteq> endpoint_sign c m N Te E (E_max (search_bracket c Te E))"
    and "length E < 2 ^ 32"
  defines "s0 \<equiv> search_bracket c Te E"
  defines "step \<equiv> bisect_step c m N Te E (endpoint_sign c m N Te E (E_min (search_bracket c Te E)))"
  defines "K \<equiv> nat \<lceil>log 2 (\<bar>E_max (search_bracket c Te E) - E_min (search_bracket c Te E)\<bar>
                               / (1 / 10 ^ 8 * e c))\<rceil>"
  shows "(\<forall>s. E_min (step s)
               = (if GSL_SIGN (residual c m N Te E (E_mid s))
                       = endpoint_sign c m N Te E (E_min (search_bracket c Te E))
                  then E_mid s else E_min s)
            \<and> E_max (step s)
               = (if GSL_SIGN (residual c m N Te E (E_mid s))
                       = endpoint_sign c m N Te E (E_min (search_bracket c Te E))
                  then E_max s else E_mid s))
       \<and> (\<forall>j. \<bar>E_max ((step ^^ Suc j) s0) - E_min ((step ^^ Suc j) s0)\<bar>
               = \<bar>E_max ((step ^^ j) s0) - E_min ((step ^^ j) s0)\<bar> / 2)
       \<and> (\<forall>j<K. bisect_cond c ((step ^^ j) s0))
       \<and> \<not> bisect_cond c ((step ^^ K) s0)
       \<and> find_fermi_global c m N Te E = Some (Inr (E_mid ((step ^^ K) s0)))"
proof -
  from assms(1) have e: "0 < e c" by (simp add: valid_constants_def)
  have mid: "E_mid s0 = (E_max s0 + E_min s0) / 2"
    by (simp add: s0_def search_bracket_simps)
  have w: "0 < \<bar>E_max s0 - E_min s0\<bar>"
    unfolding s0_def using assms(3) by (rule solvable_width_pos)
  note it = bisect_loop_iterations [OF e mid w assms(4),
      where m = m and N = N and Te = Te
        and sg = "endpoint_sign c m N Te E (E_min (search_bracket c Te E))",
      folded s0_def]
  have halve: "\<bar>E_max ((step ^^ Suc j) s0) - E_min ((step ^^ Suc j) s0)\<bar>
               = \<bar>E_max ((step ^^ j) s0) - E_min ((step ^^ j) s0)\<bar> / 2" for j
    unfolding step_def bisect_funpow_width [OF mid] by simp
  have "find_fermi_global c m N Te E = Some (Inr (E_mid ((step ^^ K) s0)))"
    using assms(3) it(3)
    by (simp add: find_fermi_global_nonempty [OF assms(2)] s0_def step_def K_def)
  moreover have "E_min (step s)
               = (if GSL_SIGN (residual c m N Te E (E_mid s))
                       = endpoint_sign c m N Te E (E_min (search_bracket c Te E))
                  then E_mid s else E_min s)
            \<and> E_max (step s)
               = (if GSL_SIGN (residual c m N Te E (E_mid s))
                       = endpoint_sign c m N Te E (E_min (search_bracket c Te E))
                  then E_max s else E_mid s)" for s
    by (simp add: step_def bisect_step_def bisect_update_def residual_def Let_def)
  ultimately show ?thesis
    using halve it(1,2) by (simp add: s0_def step_def K_def)
qed

theorem bisection_halves_and_terminates_witness:
  "valid_constants mksa \<and> ladder2 \<noteq> [] \<and> length ladder2 < 2 ^ 32
 \<and> endpoint_sign mksa m_GaAs N_1e15 4 ladder2 (E_min (search_bracket mksa 4 ladder2))
     \<noteq> endpoint_sign mksa m_GaAs N_1e15 4 ladder2 (E_max (search_bracket mksa 4 ladder2))
 \<and> find_fermi_global mksa m_GaAs N_1e15 4 ladder2
     = Some (Inr (E_mid ((bisect_step mksa m_GaAs N_1e15 4 ladder2 (- 1)
          ^^ nat \<lceil>log 2 (\<bar>E_max (search_bracket mksa 4 ladder2) - E_min (search_bracket mksa 4 ladder2)\<bar>
                           / (1 / 10 ^ 8 * e mksa))\<rceil>)
        (search_bracket mksa 4 ladder2))))"
proof -
  have d: "endpoint_sign mksa m_GaAs N_1e15 4 ladder2 (E_min (search_bracket mksa 4 ladder2))
     \<noteq> endpoint_sign mksa m_GaAs N_1e15 4 ladder2 (E_max (search_bracket mksa 4 ladder2))"
    unfolding ladder2_signs_1e15 by simp
  have len: "length ladder2 < 2 ^ 32"
    by (simp add: ladder2_def)
  from bisection_halves_and_terminates [OF valid_mksa ladder2_nonempty d len]
  have "find_fermi_global mksa m_GaAs N_1e15 4 ladder2
     = Some (Inr (E_mid ((bisect_step mksa m_GaAs N_1e15 4 ladder2 (- 1)
          ^^ nat \<lceil>log 2 (\<bar>E_max (search_bracket mksa 4 ladder2) - E_min (search_bracket mksa 4 ladder2)\<bar>
                           / (1 / 10 ^ 8 * e mksa))\<rceil>)
        (search_bracket mksa 4 ladder2))))"
    unfolding ladder2_signs_1e15 by blast
  with valid_mksa ladder2_nonempty d len show ?thesis
    by blast
qed

text \<open>
  For an array of \<open>2 ^ 32\<close> subbands the first run of the loop body does not end: the
  counter of its inner loop wraps before it reaches the size.
\<close>

lemma ladder_2_32_length: "length ladder_2_32 = 2 ^ 32"
  by (simp only: ladder_2_32_def length_replicate)

lemma ladder_2_32_nonempty: "ladder_2_32 \<noteq> []"
proof
  assume "ladder_2_32 = []"
  then have "length ladder_2_32 = 0" by (simp only: list.size)
  then show False by (simp add: ladder_2_32_length)
qed

lemma ladder_2_32_nth:
  assumes "i < 2 ^ 32"
  shows "ladder_2_32 ! i = 0"
  unfolding ladder_2_32_def using assms by (rule nth_replicate)

lemma ladder_2_32_bracket:
  "E_min (search_bracket mksa 4 ladder_2_32) = - (55226016 / 10 ^ 28)"
  "E_max (search_bracket mksa 4 ladder_2_32) = 55226016 / 10 ^ 28"
proof -
  have first: "ladder_2_32 ! 0 = 0"
    by (rule ladder_2_32_nth) simp
  have "size_t_pred (length ladder_2_32) = 2 ^ 32 - 1"
    by (simp add: ladder_2_32_length size_t_pred_def)
  moreover have "ladder_2_32 ! (2 ^ 32 - 1) = 0"
    by (rule ladder_2_32_nth) simp
  ultimately have last: "ladder_2_32 ! size_t_pred (length ladder_2_32) = 0"
    by (simp only:)
  show "E_min (search_bracket mksa 4 ladder_2_32) = - (55226016 / 10 ^ 28)"
    by (simp add: search_bracket_simps first mksa_def)
  show "E_max (search_bracket mksa 4 ladder_2_32) = 55226016 / 10 ^ 28"
    by (simp add: search_bracket_simps last mksa_def)
qed

lemma ladder_2_32_signs:
  "endpoint_sign mksa m_GaAs N_1e15 4 ladder_2_32 (E_min (search_bracket mksa 4 ladder_2_32)) = - 1"
  "endpoint_sign mksa m_GaAs N_1e15 4 ladder_2_32 (E_max (search_bracket mksa 4 ladder_2_32)) = 1"
proof -
  have first: "ladder_2_32 ! 0 = 0"
    by (rule ladder_2_32_nth) simp
  have "find_pop mksa 0 (- (55226016 / 10 ^ 28)) m_GaAs 4 < 2 * 10 ^ 14"
    by (rule ladder2_low) simp
  then have "find_pop mksa 0 (- (55226016 / 10 ^ 28)) m_GaAs 4 - N_1e15 < 0"
    by (simp add: N_1e15_def)
  then show "endpoint_sign mksa m_GaAs N_1e15 4 ladder_2_32
      (E_min (search_bracket mksa 4 ladder_2_32)) = - 1"
    by (simp add: endpoint_sign_def GSL_SIGN_def ladder_2_32_bracket first)
  have "61 / (4 * 105457162825 ^ 2) * 10 ^ 57 * (55226016 / 10 ^ 28 - 0)
           \<le> find_pop mksa 0 (55226016 / 10 ^ 28) m_GaAs 4"
    by (rule find_pop_mksa_lower) simp
  moreover have "(10 ^ 15 :: real) \<le> 61 / (4 * 105457162825 ^ 2) * 10 ^ 57 * (55226016 / 10 ^ 28 - 0)"
    by simp
  ultimately have "10 ^ 15 \<le> find_pop mksa 0 (55226016 / 10 ^ 28) m_GaAs 4"
    by linarith
  then have "0 \<le> find_pop mksa 0 (55226016 / 10 ^ 28) m_GaAs 4 - N_1e15"
    by (simp add: N_1e15_def)
  then show "endpoint_sign mksa m_GaAs N_1e15 4 ladder_2_32
      (E_max (search_bracket mksa 4 ladder_2_32)) = 1"
    by (simp add: endpoint_sign_def GSL_SIGN_def ladder_2_32_bracket first)
qed

theorem bisection_never_ends_counterexample:
  "valid_constants mksa \<and> ladder_2_32 \<noteq> []
 \<and> endpoint_sign mksa m_GaAs N_1e15 4 ladder_2_32 (E_min (search_bracket mksa 4 ladder_2_32))
     \<noteq> endpoint_sign mksa m_GaAs N_1e15 4 ladder_2_32 (E_max (search_bracket mksa 4 ladder_2_32))
 \<and> bisect_cond mksa (search_bracket mksa 4 ladder_2_32)
 \<and> population_loop mksa m_GaAs 4 ladder_2_32 (E_mid (search_bracket mksa 4 ladder_2_32)) 0 0 = None
 \<and> find_fermi_global mksa m_GaAs N_1e15 4 ladder_2_32 = None"
proof -
  have d: "endpoint_sign mksa m_GaAs N_1e15 4 ladder_2_32 (E_min (search_bracket mksa 4 ladder_2_32))
     \<noteq> endpoint_sign mksa m_GaAs N_1e15 4 ladder_2_32 (E_max (search_bracket mksa 4 ladder_2_32))"
    unfolding ladder_2_32_signs by simp
  have cond: "bisect_cond mksa (search_bracket mksa 4 ladder_2_32)"
    unfolding bisect_cond_def ladder_2_32_bracket by (simp add: mksa_def)
  have inner: "population_loop mksa m_GaAs 4 ladder_2_32 E_F 0 0 = None" for E_F
    by (rule population_loop_diverges) (simp add: ladder_2_32_length)
  have "bisect_loop mksa m_GaAs N_1e15 4 ladder_2_32 (- 1) (search_bracket mksa 4 ladder_2_32) = None"
    using cond by (subst bisect_loop.simps) (simp add: inner)
  then have "find_fermi_global mksa m_GaAs N_1e15 4 ladder_2_32 = None"
    unfolding find_fermi_global_nonempty [OF ladder_2_32_nonempty] ladder_2_32_signs by simp
  with valid_mksa ladder_2_32_nonempty d cond inner show ?thesis
    by blast
qed

subsection \<open>The signs at the endpoints\<close>

lemma total_population_ladder2:
  "total_population c m Te ladder2 E_F = find_pop c 0 E_F m Te + find_pop c (1 / 10 ^ 21) E_F m Te"
  by (simp add: total_population_def ladder2_def)

lemma ladder2_signs_14e15:
  "endpoint_sign mksa m_GaAs N_14e15 4 ladder2 (E_min (search_bracket mksa 4 ladder2)) = - 1"
  "endpoint_sign mksa m_GaAs N_14e15 4 ladder2 (E_max (search_bracket mksa 4 ladder2)) = - 1"
proof -
  have "find_pop mksa 0 (- (55226016 / 10 ^ 28)) m_GaAs 4 < 2 * 10 ^ 14"
    by (rule ladder2_low) simp
  then have "find_pop mksa (ladder2 ! 0) (- (55226016 / 10 ^ 28)) m_GaAs 4 - N_14e15 < 0"
    by (simp add: ladder2_def N_14e15_def)
  then show "endpoint_sign mksa m_GaAs N_14e15 4 ladder2 (E_min (search_bracket mksa 4 ladder2)) = - 1"
    by (simp add: endpoint_sign_def GSL_SIGN_def ladder2_bracket)
  have "find_pop mksa 0 (65226016 / 10 ^ 28) m_GaAs 4
      \<le> 61 / (3 * 105457162825 ^ 2) * 10 ^ 57 * (max (65226016 / 10 ^ 28 - 0) 0 + 55226016 / 10 ^ 30)"
    by (rule find_pop_mksa_upper)
  also have "\<dots> < 14 * 10 ^ 15"
    by simp
  finally have "find_pop mksa (ladder2 ! 0) (65226016 / 10 ^ 28) m_GaAs 4 - N_14e15 < 0"
    by (simp add: ladder2_def N_14e15_def)
  then show "endpoint_sign mksa m_GaAs N_14e15 4 ladder2 (E_max (search_bracket mksa 4 ladder2)) = - 1"
    by (simp add: endpoint_sign_def GSL_SIGN_def ladder2_bracket)
qed

lemma ladder2_residuals_14e15:
  "residual mksa m_GaAs N_14e15 4 ladder2 (E_min (search_bracket mksa 4 ladder2)) < 0"
  "0 < residual mksa m_GaAs N_14e15 4 ladder2 (E_max (search_bracket mksa 4 ladder2))"
proof -
  have "find_pop mksa 0 (- (55226016 / 10 ^ 28)) m_GaAs 4 < 2 * 10 ^ 14"
    and "find_pop mksa (1 / 10 ^ 21) (- (55226016 / 10 ^ 28)) m_GaAs 4 < 2 * 10 ^ 14"
    by (rule ladder2_low, simp)+
  then show "residual mksa m_GaAs N_14e15 4 ladder2 (E_min (search_bracket mksa 4 ladder2)) < 0"
    by (simp add: residual_def total_population_ladder2 ladder2_bracket N_14e15_def)
  have "61 / (4 * 105457162825 ^ 2) * 10 ^ 57 * (65226016 / 10 ^ 28 - 0)
           \<le> find_pop mksa 0 (65226016 / 10 ^ 28) m_GaAs 4"
    and "61 / (4 * 105457162825 ^ 2) * 10 ^ 57 * (65226016 / 10 ^ 28 - 1 / 10 ^ 21)
           \<le> find_pop mksa (1 / 10 ^ 21) (65226016 / 10 ^ 28) m_GaAs 4"
    by (rule ladder2_high, simp)+
  moreover have "(14 * 10 ^ 15 :: real) <
      61 / (4 * 105457162825 ^ 2) * 10 ^ 57 * (65226016 / 10 ^ 28 - 0)
    + 61 / (4 * 105457162825 ^ 2) * 10 ^ 57 * (65226016 / 10 ^ 28 - 1 / 10 ^ 21)"
    by simp
  ultimately have "14 * 10 ^ 15
      < find_pop mksa 0 (65226016 / 10 ^ 28) m_GaAs 4
        + find_pop mksa (1 / 10 ^ 21) (65226016 / 10 ^ 28) m_GaAs 4"
    by linarith
  then show "0 < residual mksa m_GaAs N_14e15 4 ladder2 (E_max (search_bracket mksa 4 ladder2))"
    by (simp add: residual_def total_population_ladder2 ladder2_bracket N_14e15_def)
qed

text \<open>
  Claim C1 says that the solver throws exactly when the residual over all subbands has
  the same sign at both endpoints of the bracket. The code takes the two signs from the
  subband \<^verbatim>\<open>E[0]\<close> alone. For two subbands 1e-21 J apart at 4 K and a density of
  1.4e16 per square metre the residual over both subbands is negative at the lower
  endpoint and positive at the upper one, so a Fermi energy exists inside the bracket,
  and the call throws all the same.
\<close>

theorem find_fermi_global_rejects_solvable:
  "find_fermi_global mksa m_GaAs N_14e15 4 ladder2 = Some (Inl NoSolutionInRange)
 \<and> residual mksa m_GaAs N_14e15 4 ladder2 (E_min (search_bracket mksa 4 ladder2)) < 0
 \<and> 0 < residual mksa m_GaAs N_14e15 4 ladder2 (E_max (search_bracket mksa 4 ladder2))
 \<and> GSL_SIGN (residual mksa m_GaAs N_14e15 4 ladder2 (E_min (search_bracket mksa 4 ladder2)))
     \<noteq> GSL_SIGN (residual mksa m_GaAs N_14e15 4 ladder2 (E_max (search_bracket mksa 4 ladder2)))"
proof -
  have "find_fermi_global mksa m_GaAs N_14e15 4 ladder2 = Some (Inl NoSolutionInRange)"
    unfolding find_fermi_global_nonempty [OF ladder2_nonempty] ladder2_signs_14e15 by simp
  with ladder2_residuals_14e15 show ?thesis
    by (simp add: GSL_SIGN_def)
qed

lemma bisect_step_inside:
  assumes "E_min s < E_max s" and "E_mid s = (E_max s + E_min s) / 2"
  shows "E_min s \<le> E_min (bisect_step c m N Te E sg s)"
    and "E_min (bisect_step c m N Te E sg s) < E_max (bisect_step c m N Te E sg s)"
    and "E_max (bisect_step c m N Te E sg s) \<le> E_max s"
  using assms by (simp_all add: bisect_step_def bisect_update_def Let_def)

lemma bisect_funpow_inside:
  assumes "E_min s < E_max s" and "E_mid s = (E_max s + E_min s) / 2"
  shows "E_min s \<le> E_min ((bisect_step c m N Te E sg ^^ k) s)
       \<and> E_min ((bisect_step c m N Te E sg ^^ k) s) < E_max ((bisect_step c m N Te E sg ^^ k) s)
       \<and> E_max ((bisect_step c m N Te E sg ^^ k) s) \<le> E_max s"
proof (induction k)
  case 0
  show ?case using assms(1) by simp
next
  case (Suc k)
  let ?t = "(bisect_step c m N Te E sg ^^ k) s"
  from Suc.IH have lt: "E_min ?t < E_max ?t" by simp
  have mid: "E_mid ?t = (E_max ?t + E_min ?t) / 2"
    by (rule bisect_funpow_mid [OF assms(2)])
  from bisect_step_inside
    [OF lt mid, where c = c and m = m and N = N and Te = Te and E = E and sg = sg] Suc.IH
  show ?case by simp
qed

lemma bisect_funpow_mid_inside:
  assumes "E_min s < E_max s" and "E_mid s = (E_max s + E_min s) / 2"
  shows "E_min s < E_mid ((bisect_step c m N Te E sg ^^ k) s)"
    and "E_mid ((bisect_step c m N Te E sg ^^ k) s) < E_max s"
  using bisect_funpow_inside
      [OF assms, where c = c and m = m and N = N and Te = Te and E = E and sg = sg and k = k]
    bisect_funpow_mid
      [OF assms(2), where c = c and m = m and N = N and Te = Te and E = E and sg = sg and k = k]
  by simp_all

lemma ladder3_nonempty: "ladder3 \<noteq> []"
  by (simp add: ladder3_def)

lemma ladder3_bracket:
  "E_min (search_bracket mksa 4 ladder3) = 24773984 / 10 ^ 28"
  "E_max (search_bracket mksa 4 ladder3) = 215226016 / 10 ^ 28"
  by (simp_all add: search_bracket_simps ladder3_def mksa_def size_t_pred_def)

lemma total_population_ladder3:
  "total_population c m Te ladder3 E_F
     = find_pop c (8 / 10 ^ 21) E_F m Te + find_pop c 0 E_F m Te + find_pop c (16 / 10 ^ 21) E_F m Te"
  by (simp add: total_population_def ladder3_def)

lemma ladder3_signs_1e15:
  "endpoint_sign mksa m_GaAs N_1e15 4 ladder3 (E_min (search_bracket mksa 4 ladder3)) = - 1"
  "endpoint_sign mksa m_GaAs N_1e15 4 ladder3 (E_max (search_bracket mksa 4 ladder3)) = 1"
proof -
  have "find_pop mksa (8 / 10 ^ 21) (24773984 / 10 ^ 28) m_GaAs 4
      \<le> 61 / (3 * 105457162825 ^ 2) * 10 ^ 57
          * (max (24773984 / 10 ^ 28 - 8 / 10 ^ 21) 0 + 55226016 / 10 ^ 30)"
    by (rule find_pop_mksa_upper)
  also have "\<dots> < 10 ^ 15"
    by simp
  finally have "find_pop mksa (ladder3 ! 0) (24773984 / 10 ^ 28) m_GaAs 4 - N_1e15 < 0"
    by (simp add: ladder3_def N_1e15_def)
  then show "endpoint_sign mksa m_GaAs N_1e15 4 ladder3 (E_min (search_bracket mksa 4 ladder3)) = - 1"
    by (simp add: endpoint_sign_def GSL_SIGN_def ladder3_bracket)
  have "61 / (4 * 105457162825 ^ 2) * 10 ^ 57 * (215226016 / 10 ^ 28 - 8 / 10 ^ 21)
      \<le> find_pop mksa (8 / 10 ^ 21) (215226016 / 10 ^ 28) m_GaAs 4"
    by (rule find_pop_mksa_lower) simp
  moreover have "(10 ^ 15 :: real)
      \<le> 61 / (4 * 105457162825 ^ 2) * 10 ^ 57 * (215226016 / 10 ^ 28 - 8 / 10 ^ 21)"
    by simp
  ultimately have "10 ^ 15 \<le> find_pop mksa (8 / 10 ^ 21) (215226016 / 10 ^ 28) m_GaAs 4"
    by linarith
  then have "0 \<le> find_pop mksa (ladder3 ! 0) (215226016 / 10 ^ 28) m_GaAs 4 - N_1e15"
    by (simp add: ladder3_def N_1e15_def)
  then show "endpoint_sign mksa m_GaAs N_1e15 4 ladder3 (E_max (search_bracket mksa 4 ladder3)) = 1"
    by (simp add: endpoint_sign_def GSL_SIGN_def ladder3_bracket)
qed

text \<open>Everywhere in the bracket the ladder holds more than three times the requested density.\<close>

lemma ladder3_residual:
  assumes "24773984 / 10 ^ 28 \<le> E_F"
  shows "2 * 10 ^ 15 < residual mksa m_GaAs N_1e15 4 ladder3 E_F"
proof -
  have T: "(0::real) < 4" by simp
  have p1: "0 < find_pop mksa (8 / 10 ^ 21) E_F m_GaAs 4"
    and p3: "0 < find_pop mksa (16 / 10 ^ 21) E_F m_GaAs 4"
    by (rule find_pop_pos [OF valid_mksa m_GaAs_pos T])+
  have "61 / (4 * 105457162825 ^ 2) * 10 ^ 57 * (E_F - 0) \<le> find_pop mksa 0 E_F m_GaAs 4"
    using assms by (intro find_pop_mksa_lower) simp
  moreover have "(3 * 10 ^ 15 :: real) < 61 / (4 * 105457162825 ^ 2) * 10 ^ 57 * (24773984 / 10 ^ 28)"
    by simp
  moreover have "61 / (4 * 105457162825 ^ 2) * 10 ^ 57 * (24773984 / 10 ^ 28)
      \<le> 61 / (4 * 105457162825 ^ 2) * 10 ^ 57 * (E_F - 0)"
    using assms by (intro mult_left_mono) simp_all
  ultimately have "3 * 10 ^ 15 < find_pop mksa 0 E_F m_GaAs 4"
    by linarith
  with p1 p3 show ?thesis
    by (simp add: residual_def total_population_ladder3 N_1e15_def)
qed

lemma ladder3_tolerance: "population_tolerance mksa m_GaAs ladder3 < 10 ^ 10"
proof -
  have "m_GaAs / (pi * hBar mksa * hBar mksa) \<le> m_GaAs / (3 * hBar mksa * hBar mksa)"
    by (rule rho_bounds(2) [OF valid_mksa m_GaAs_pos])
  also have "\<dots> = 61 / (3 * 105457162825 ^ 2) * 10 ^ 57"
    by (simp add: mksa_def m_GaAs_def power2_eq_square)
  finally have "3 * (m_GaAs / (pi * hBar mksa * hBar mksa)) * (1 / 10 ^ 8 * (1602176487 / 10 ^ 28))
      \<le> 3 * (61 / (3 * 105457162825 ^ 2) * 10 ^ 57) * (1 / 10 ^ 8 * (1602176487 / 10 ^ 28))"
    by (intro mult_right_mono mult_left_mono) simp_all
  also have "\<dots> < 10 ^ 10"
    by simp
  finally show ?thesis
    by (simp add: population_tolerance_def ladder3_def mksa_def)
qed

text \<open>
  Claim C2 says that a Fermi energy that is returned lies strictly inside the bracket
  and leaves a residual within the population that corresponds to the energy tolerance.
  For the ladder of three subbands whose first entry is not its lowest, at 4 K and a
  density of 1e15 per square metre, the residual over all subbands is positive at both
  endpoints, so no Fermi energy of the bracket gives the density; the signs taken from
  \<^verbatim>\<open>E[0]\<close> alone differ, and the call returns an energy inside the bracket at which the
  ladder holds more than three times the density asked for.
\<close>

theorem find_fermi_global_accepts_unsolvable:
  "\<exists>E_F. find_fermi_global mksa m_GaAs N_1e15 4 ladder3 = Some (Inr E_F)
     \<and> E_min (search_bracket mksa 4 ladder3) < E_F \<and> E_F < E_max (search_bracket mksa 4 ladder3)
     \<and> 2 * N_1e15 < \<bar>residual mksa m_GaAs N_1e15 4 ladder3 E_F\<bar>
     \<and> population_tolerance mksa m_GaAs ladder3 < 10 ^ 10
     \<and> 10 ^ 10 < \<bar>residual mksa m_GaAs N_1e15 4 ladder3 E_F\<bar>
     \<and> 0 < residual mksa m_GaAs N_1e15 4 ladder3 (E_min (search_bracket mksa 4 ladder3))
     \<and> 0 < residual mksa m_GaAs N_1e15 4 ladder3 (E_max (search_bracket mksa 4 ladder3))"
proof -
  let ?s0 = "search_bracket mksa 4 ladder3"
  let ?K = "nat \<lceil>log 2 (\<bar>E_max ?s0 - E_min ?s0\<bar> / (1 / 10 ^ 8 * e mksa))\<rceil>"
  let ?E_F = "E_mid ((bisect_step mksa m_GaAs N_1e15 4 ladder3 (- 1) ^^ ?K) ?s0)"
  have lt: "E_min ?s0 < E_max ?s0"
    by (simp add: ladder3_bracket)
  have mid: "E_mid ?s0 = (E_max ?s0 + E_min ?s0) / 2"
    by (rule search_bracket_simps)
  have e: "0 < e mksa"
    using valid_mksa by (simp add: valid_constants_def)
  have w: "0 < \<bar>E_max ?s0 - E_min ?s0\<bar>"
    using lt by simp
  have len: "length ladder3 < 2 ^ 32"
    by (simp add: ladder3_def)
  have "bisect_loop mksa m_GaAs N_1e15 4 ladder3 (- 1) ?s0
      = Some ((bisect_step mksa m_GaAs N_1e15 4 ladder3 (- 1) ^^ ?K) ?s0)"
    by (rule bisect_loop_iterations(3) [OF e mid w len])
  then have ret: "find_fermi_global mksa m_GaAs N_1e15 4 ladder3 = Some (Inr ?E_F)"
    unfolding find_fermi_global_nonempty [OF ladder3_nonempty] ladder3_signs_1e15 by simp
  have lo: "E_min ?s0 < ?E_F" and hi: "?E_F < E_max ?s0"
    by (rule bisect_funpow_mid_inside [OF lt mid])+
  from lo have "24773984 / 10 ^ 28 \<le> ?E_F"
    by (simp add: ladder3_bracket)
  then have r: "2 * 10 ^ 15 < residual mksa m_GaAs N_1e15 4 ladder3 ?E_F"
    by (rule ladder3_residual)
  have r0: "2 * 10 ^ 15 < residual mksa m_GaAs N_1e15 4 ladder3 (E_min ?s0)"
    and r1: "2 * 10 ^ 15 < residual mksa m_GaAs N_1e15 4 ladder3 (E_max ?s0)"
    by (rule ladder3_residual, simp add: ladder3_bracket)+
  from r have "2 * N_1e15 < \<bar>residual mksa m_GaAs N_1e15 4 ladder3 ?E_F\<bar>"
    and "10 ^ 10 < \<bar>residual mksa m_GaAs N_1e15 4 ladder3 ?E_F\<bar>"
    by (simp_all add: N_1e15_def)
  moreover from r0 r1 have "0 < residual mksa m_GaAs N_1e15 4 ladder3 (E_min ?s0)"
    and "0 < residual mksa m_GaAs N_1e15 4 ladder3 (E_max ?s0)"
    by simp_all
  ultimately show ?thesis
    using ret lo hi ladder3_tolerance by blast
qed

subsection \<open>What the bisection achieves\<close>

lemma ln1p_exp_lipschitz:
  assumes "(a::real) \<le> b"
  shows "ln (1 + exp b) - ln (1 + exp a) \<le> b - a"
proof -
  have "1 \<le> exp (b - a)" using assms by simp
  then have "1 + exp b \<le> exp (b - a) + exp (b - a) * exp a"
    by (simp add: exp_add [symmetric])
  also have "\<dots> = exp (b - a) * (1 + exp a)"
    by (simp add: algebra_simps)
  finally have "ln (1 + exp b) \<le> ln (exp (b - a) * (1 + exp a))"
    by (subst ln_le_cancel_iff) (simp_all add: add_pos_pos)
  also have "\<dots> = ln (exp (b - a)) + ln (1 + exp a)"
    by (rule ln_mult_pos) (simp_all add: add_pos_pos)
  finally show ?thesis by simp
qed

lemma find_pop_mono:
  assumes "valid_constants c" and "0 < m" and "0 < Te" and "a \<le> b"
  shows "find_pop c Esb a m Te \<le> find_pop c Esb b m Te"
proof -
  from assms(1) have k: "0 < kB c" and h: "0 < hBar c"
    by (simp_all add: valid_constants_def)
  have kT: "0 < kB c * Te" using k assms(3) by simp
  have "(a - Esb) / (kB c * Te) \<le> (b - Esb) / (kB c * Te)"
    using kT assms(4) by (simp add: divide_right_mono)
  then have "ln (1 + exp ((a - Esb) / (kB c * Te))) \<le> ln (1 + exp ((b - Esb) / (kB c * Te)))"
    by (simp add: add_pos_pos)
  then have "kB c * Te * ln (1 + exp ((a - Esb) / (kB c * Te)))
      \<le> kB c * Te * ln (1 + exp ((b - Esb) / (kB c * Te)))"
    using kT by (intro mult_left_mono) simp_all
  moreover have "0 \<le> m / (pi * hBar c * hBar c)"
    using h assms(2) by simp
  ultimately show ?thesis
    unfolding find_pop_eq by (rule mult_left_mono)
qed

lemma find_pop_lipschitz:
  assumes "valid_constants c" and "0 < m" and "0 < Te" and "a \<le> b"
  shows "find_pop c Esb b m Te - find_pop c Esb a m Te \<le> m / (pi * hBar c * hBar c) * (b - a)"
proof -
  from assms(1) have k: "0 < kB c" and h: "0 < hBar c"
    by (simp_all add: valid_constants_def)
  have kT: "0 < kB c * Te" using k assms(3) by simp
  define ya where "ya = (a - Esb) / (kB c * Te)"
  define yb where "yb = (b - Esb) / (kB c * Te)"
  have "ya \<le> yb"
    unfolding ya_def yb_def using kT assms(4) by (simp add: divide_right_mono)
  then have "ln (1 + exp yb) - ln (1 + exp ya) \<le> yb - ya"
    by (rule ln1p_exp_lipschitz)
  then have "kB c * Te * (ln (1 + exp yb) - ln (1 + exp ya)) \<le> kB c * Te * (yb - ya)"
    using kT by (intro mult_left_mono) simp_all
  also have "kB c * Te * (yb - ya) = b - a"
    using k assms(3) by (simp add: ya_def yb_def diff_divide_distrib [symmetric])
  finally have "m / (pi * hBar c * hBar c) * (kB c * Te * (ln (1 + exp yb) - ln (1 + exp ya)))
      \<le> m / (pi * hBar c * hBar c) * (b - a)"
    using h assms(2) by (intro mult_left_mono) simp_all
  then show ?thesis
    by (simp add: find_pop_eq ya_def yb_def algebra_simps)
qed

lemma total_population_mono:
  assumes "valid_constants c" and "0 < m" and "0 < Te" and "a \<le> b"
  shows "total_population c m Te E a \<le> total_population c m Te E b"
  unfolding total_population_sum
  by (induction E) (simp_all add: add_mono find_pop_mono [OF assms])

lemma sum_list_increase_le:
  fixes f :: "'a \<Rightarrow> real" and g :: "'a \<Rightarrow> real"
  assumes "\<And>x. g x - f x \<le> L"
  shows "(\<Sum>x\<leftarrow>xs. g x) - (\<Sum>x\<leftarrow>xs. f x) \<le> real (length xs) * L"
proof (induction xs)
  case Nil
  show ?case by simp
next
  case (Cons x xs)
  from assms [of x] Cons.IH show ?case
    by (simp add: algebra_simps)
qed

lemma total_population_lipschitz:
  assumes "valid_constants c" and "0 < m" and "0 < Te" and "a \<le> b"
  shows "total_population c m Te E b - total_population c m Te E a
           \<le> real (length E) * (m / (pi * hBar c * hBar c) * (b - a))"
  unfolding total_population_sum
  by (rule sum_list_increase_le) (rule find_pop_lipschitz [OF assms])

lemma total_population_nonneg:
  assumes "valid_constants c" and "0 < m" and "0 < Te"
  shows "0 \<le> total_population c m Te E x"
  unfolding total_population_sum
proof (induction E)
  case Nil
  show ?case by simp
next
  case (Cons y ys)
  from find_pop_pos [OF assms, of y x] Cons.IH show ?case by simp
qed

lemma first_le_total:
  assumes "valid_constants c" and "0 < m" and "0 < Te" and "E \<noteq> []"
  shows "find_pop c (E ! 0) x m Te \<le> total_population c m Te E x"
proof (cases E)
  case Nil
  with assms(4) show ?thesis by simp
next
  case (Cons y ys)
  have "0 \<le> total_population c m Te ys x"
    by (rule total_population_nonneg [OF assms(1-3)])
  then show ?thesis
    by (simp add: Cons total_population_sum)
qed

text \<open>
  What the code does: for an array that is not empty the call throws exactly when the
  two signs taken from the first subband agree.
\<close>

lemma find_fermi_global_throws_iff:
  assumes "E \<noteq> []"
  shows "find_fermi_global c m N Te E = Some (Inl NoSolutionInRange)
     \<longleftrightarrow> endpoint_sign c m N Te E (E_min (search_bracket c Te E))
           = endpoint_sign c m N Te E (E_max (search_bracket c Te E))"
  by (cases "bisect_loop c m N Te E (endpoint_sign c m N Te E (E_min (search_bracket c Te E)))
               (search_bracket c Te E)")
    (simp_all add: find_fermi_global_nonempty [OF assms])

lemma bisect_step_signs:
  assumes "residual c m N Te E (E_min s) < 0" and "0 \<le> residual c m N Te E (E_max s)"
  shows "residual c m N Te E (E_min (bisect_step c m N Te E (- 1) s)) < 0"
    and "0 \<le> residual c m N Te E (E_max (bisect_step c m N Te E (- 1) s))"
  using assms by (simp_all add: bisect_step_def bisect_update_def Let_def GSL_SIGN_def residual_def)

lemma bisect_funpow_signs:
  assumes "residual c m N Te E (E_min s) < 0" and "0 \<le> residual c m N Te E (E_max s)"
  shows "residual c m N Te E (E_min ((bisect_step c m N Te E (- 1) ^^ k) s)) < 0
       \<and> 0 \<le> residual c m N Te E (E_max ((bisect_step c m N Te E (- 1) ^^ k) s))"
proof (induction k)
  case 0
  show ?case using assms by simp
next
  case (Suc k)
  then show ?case by (simp add: bisect_step_signs)
qed

text \<open>
  What the bisection achieves when the sign at the lower endpoint is the sign of the
  residual over all subbands: for positive constants, mass and temperature, an array
  of at least one and fewer than \<open>2 ^ 32\<close> elements and a residual that is negative at the
  lower endpoint, a returned
  Fermi energy lies strictly inside the bracket and its residual is at most half the
  population tolerance.
\<close>

lemma find_fermi_global_residual:
  assumes "valid_constants c" and "0 < m" and "0 < Te" and "E \<noteq> []"
    and len: "length E < 2 ^ 32"
    and neg: "residual c m N Te E (E_min (search_bracket c Te E)) < 0"
    and ret: "find_fermi_global c m N Te E = Some (Inr E_F)"
  shows "E_min (search_bracket c Te E) < E_F \<and> E_F < E_max (search_bracket c Te E)
       \<and> \<bar>residual c m N Te E E_F\<bar> \<le> population_tolerance c m E / 2"
proof -
  let ?s0 = "search_bracket c Te E"
  let ?g = "residual c m N Te E"
  from assms(1) have e: "0 < e c" and h: "0 < hBar c"
    by (simp_all add: valid_constants_def)
  have differ: "endpoint_sign c m N Te E (E_min ?s0) \<noteq> endpoint_sign c m N Te E (E_max ?s0)"
    using ret find_fermi_global_throws_iff [OF assms(4), where c = c and m = m and N = N and Te = Te]
    by auto
  have first_neg: "find_pop c (E ! 0) (E_min ?s0) m Te - N < 0"
    using first_le_total [OF assms(1-4), of "E_min ?s0"] neg by (simp add: residual_def)
  then have smin: "endpoint_sign c m N Te E (E_min ?s0) = - 1"
    by (simp add: endpoint_sign_def GSL_SIGN_def)
  with differ have first_pos: "0 \<le> find_pop c (E ! 0) (E_max ?s0) m Te - N"
    by (simp add: endpoint_sign_def GSL_SIGN_def split: if_splits)
  then have pos: "0 \<le> ?g (E_max ?s0)"
    using first_le_total [OF assms(1-4), of "E_max ?s0"] by (simp add: residual_def)
  have lt: "E_min ?s0 < E_max ?s0"
  proof (rule ccontr)
    assume "\<not> E_min ?s0 < E_max ?s0"
    then have "E_max ?s0 \<le> E_min ?s0" by simp
    then have "find_pop c (E ! 0) (E_max ?s0) m Te \<le> find_pop c (E ! 0) (E_min ?s0) m Te"
      by (rule find_pop_mono [OF assms(1-3)])
    with first_neg first_pos show False by simp
  qed
  have mid: "E_mid ?s0 = (E_max ?s0 + E_min ?s0) / 2"
    by (rule search_bracket_simps)
  have w: "0 < \<bar>E_max ?s0 - E_min ?s0\<bar>"
    using lt by simp
  define K where "K = nat \<lceil>log 2 (\<bar>E_max ?s0 - E_min ?s0\<bar> / (1 / 10 ^ 8 * e c))\<rceil>"
  define t where "t = (bisect_step c m N Te E (- 1) ^^ K) ?s0"
  have loop: "bisect_loop c m N Te E (- 1) ?s0 = Some t"
    unfolding t_def K_def by (rule bisect_loop_iterations(3) [OF e mid w len])
  have stop: "\<not> bisect_cond c t"
    unfolding t_def K_def by (rule bisect_loop_iterations(2) [OF e mid w len])
  from ret differ loop have E_F: "E_F = E_mid t"
    by (simp add: find_fermi_global_nonempty [OF assms(4)] smin)
  have tmid: "E_mid t = (E_max t + E_min t) / 2"
    unfolding t_def by (rule bisect_funpow_mid [OF mid])
  have "E_min ?s0 \<le> E_min t \<and> E_min t < E_max t \<and> E_max t \<le> E_max ?s0"
    unfolding t_def by (rule bisect_funpow_inside [OF lt mid])
  then have in1: "E_min ?s0 \<le> E_min t" and in2: "E_min t < E_max t" and in3: "E_max t \<le> E_max ?s0"
    by blast+
  have "?g (E_min t) < 0 \<and> 0 \<le> ?g (E_max t)"
    unfolding t_def by (rule bisect_funpow_signs [OF neg pos])
  then have gmin: "?g (E_min t) < 0" and gmax: "0 \<le> ?g (E_max t)"
    by blast+
  from stop in2 have width: "E_max t - E_min t \<le> 1 / 10 ^ 8 * e c"
    by (simp add: bisect_cond_def not_less)
  define L where "L = m / (pi * hBar c * hBar c)"
  have L: "0 \<le> real (length E) * L"
    using h assms(2) by (simp add: L_def)
  have up: "?g E_F - ?g (E_min t) \<le> real (length E) * (L * (E_F - E_min t))"
    unfolding residual_def L_def
    using total_population_lipschitz [OF assms(1-3), of "E_min t" E_F E] in2
    by (simp add: E_F tmid)
  have down: "?g (E_max t) - ?g E_F \<le> real (length E) * (L * (E_max t - E_F))"
    unfolding residual_def L_def
    using total_population_lipschitz [OF assms(1-3), of E_F "E_max t" E] in2
    by (simp add: E_F tmid)
  have half1: "E_F - E_min t = (E_max t - E_min t) / 2"
    and half2: "E_max t - E_F = (E_max t - E_min t) / 2"
    by (simp_all add: E_F tmid field_simps)
  have "real (length E) * (L * ((E_max t - E_min t) / 2))
      \<le> real (length E) * (L * ((1 / 10 ^ 8 * e c) / 2))"
    using width h assms(2) by (intro mult_left_mono) (simp_all add: L_def)
  also have "\<dots> = population_tolerance c m E / 2"
    by (simp add: population_tolerance_def L_def)
  finally have bound: "real (length E) * (L * ((E_max t - E_min t) / 2))
      \<le> population_tolerance c m E / 2" .
  from up down gmin gmax bound have "\<bar>?g E_F\<bar> \<le> population_tolerance c m E / 2"
    unfolding half1 half2 by linarith
  moreover have "E_min ?s0 < E_F" and "E_F < E_max ?s0"
    using in1 in2 in3 by (simp_all add: E_F tmid)
  ultimately show ?thesis by simp
qed

end
